theory Spec2Isabelle
  imports Complex_Main
begin

section \<open>The Mamba mixer of megatron/core/ssm/mamba_mixer.py\<close>

text \<open>
  A shallow embedding of the class \<open>Mamba\<close>. Tensors of floating-point numbers are
  modelled as (nested) lists of real numbers: rounding, overflow to infinity and
  not-a-number values are outside the model. Shapes and Python integers are \<open>int\<close>
  where the code computes with them and \<open>nat\<close> where they are lengths.
\<close>

subsection \<open>Elementwise functions of the tensor library\<close>

text \<open>
  \<open>F.softplus\<close> with its default arguments (\<open>beta = 1\<close>, \<open>threshold = 20\<close>):
  above the threshold the library returns its argument, below it \<open>log (1 + exp x)\<close>.
\<close>

definition softplus_threshold :: real where
  "softplus_threshold = 20"

definition softplus :: "real \<Rightarrow> real" where
  "softplus x = (if x > softplus_threshold then x else ln (1 + exp x))"

text \<open>\<open>torch.expm1\<close> and \<open>F.silu\<close> (\<open>nn.SiLU\<close>): \<open>x * sigmoid x\<close>.\<close>

definition expm1 :: "real \<Rightarrow> real" where
  "expm1 x = exp x - 1"

definition silu :: "real \<Rightarrow> real" where
  "silu x = x / (1 + exp (- x))"

subsection \<open>Initialisation of the numerically sensitive parameters\<close>

text \<open>
  Lines 138 to 143 of the constructor. \<open>u\<close> is one draw of \<open>torch.rand\<close>, a number
  in the interval from 0 to 1; \<open>clamp (min = dt_init_floor)\<close> is \<open>max\<close>.
  \<open>math.log\<close> of a non-positive bound raises; the constructor below has that branch.
\<close>

definition dt_sample :: "real \<Rightarrow> real \<Rightarrow> real \<Rightarrow> real \<Rightarrow> real" where
  "dt_sample u dt_min dt_max dt_init_floor =
     max (exp (u * (ln dt_max - ln dt_min) + ln dt_min)) dt_init_floor"

definition inv_dt :: "real \<Rightarrow> real" where
  "inv_dt dt = dt + ln (- expm1 (- dt))"

text \<open>Line 154: \<open>A_log = torch.log A\<close>, at initialisation.\<close>

definition A_log_init :: "real list \<Rightarrow> real list" where
  "A_log_init A = map ln A"

subsection \<open>Single-precision arithmetic for the decay parameter\<close>

text \<open>
  Lines 200 and 393 compute \<open>A = -torch.exp (self.A_log.float ())\<close> in single
  precision, so for this computation the rounding is part of the model. A
  single-precision value is a finite number, an infinity or not-a-number; the two
  zeros are one value, since they compare equal and have the same exponential.
\<close>

datatype f32 = Fin real | PInf | NInf | NaN

text \<open>
  Rounding to the nearest single-precision value, ties to even: a finite value is an
  integer multiple of its unit in the last place, which is \<open>2 ^ (e - 23)\<close> for a
  magnitude from \<open>2 ^ e\<close> up to \<open>2 ^ (e + 1)\<close> with \<open>e\<close> at least -126, and
  \<open>2 ^ (-149)\<close> below; a rounded magnitude above the largest finite value
  \<open>(2 ^ 24 - 1) * 2 ^ 104\<close> becomes an infinity.
\<close>

definition rne :: "real \<Rightarrow> int" where
  "rne y = (let f = \<lfloor>y\<rfloor>; d = y - of_int f
            in if d < 1 / 2 then f else if 1 / 2 < d then f + 1
               else if even f then f else f + 1)"

definition f32_ulp :: "real \<Rightarrow> real" where
  "f32_ulp x = 2 powr (of_int (max (- 126) \<lfloor>log 2 \<bar>x\<bar>\<rfloor>) - 23)"

definition f32_max :: real where
  "f32_max = (2 ^ 24 - 1) * 2 ^ 104"

definition f32_round :: "real \<Rightarrow> f32" where
  "f32_round x =
     (let r = of_int (rne (x / f32_ulp x)) * f32_ulp x
      in if f32_max < r then PInf else if r < - f32_max then NInf else Fin r)"

text \<open>
  Negation, the exponential (taken as correctly rounded), multiplication and the
  comparisons \<open><\<close> and \<open>\<le>\<close> of the tensor library on single-precision values.
\<close>

fun f32_neg :: "f32 \<Rightarrow> f32" where
  "f32_neg (Fin x) = Fin (- x)"
| "f32_neg PInf = NInf"
| "f32_neg NInf = PInf"
| "f32_neg NaN = NaN"

fun f32_exp :: "f32 \<Rightarrow> f32" where
  "f32_exp (Fin x) = f32_round (exp x)"
| "f32_exp PInf = PInf"
| "f32_exp NInf = Fin 0"
| "f32_exp NaN = NaN"

fun f32_mul :: "f32 \<Rightarrow> f32 \<Rightarrow> f32" where
  "f32_mul (Fin a) (Fin b) = f32_round (a * b)"
| "f32_mul (Fin a) PInf = (if 0 < a then PInf else if a < 0 then NInf else NaN)"
| "f32_mul (Fin a) NInf = (if 0 < a then NInf else if a < 0 then PInf else NaN)"
| "f32_mul PInf (Fin b) = (if 0 < b then PInf else if b < 0 then NInf else NaN)"
| "f32_mul NInf (Fin b) = (if 0 < b then NInf else if b < 0 then PInf else NaN)"
| "f32_mul PInf PInf = PInf"
| "f32_mul PInf NInf = NInf"
| "f32_mul NInf PInf = NInf"
| "f32_mul NInf NInf = PInf"
| "f32_mul NaN _ = NaN"
| "f32_mul _ NaN = NaN"

fun f32_less :: "f32 \<Rightarrow> f32 \<Rightarrow> bool" where
  "f32_less (Fin a) (Fin b) = (a < b)"
| "f32_less (Fin a) PInf = True"
| "f32_less NInf (Fin b) = True"
| "f32_less NInf PInf = True"
| "f32_less _ _ = False"

definition f32_le :: "f32 \<Rightarrow> f32 \<Rightarrow> bool" where
  "f32_le a b = (f32_less a b \<or> (a = b \<and> a \<noteq> NaN))"

text \<open>
  Lines 200 and 393: \<open>A = -torch.exp (self.A_log.float ())\<close>, elementwise on the
  finite values of the parameter.
\<close>

definition decay_A :: "real list \<Rightarrow> f32 list" where
  "decay_A al = map (\<lambda>a. f32_neg (f32_exp (Fin a))) al"

text \<open>
  Line 399 for one element: the discretised state transition
  \<open>dA = torch.exp (dt * A)\<close> (the \<open>einsum\<close> multiplies elementwise).
\<close>

definition dA :: "f32 \<Rightarrow> f32 \<Rightarrow> f32" where
  "dA dt a = f32_exp (f32_mul dt a)"

subsection \<open>Errors\<close>

text \<open>
  The exceptions the code raises, as values. A failed \<open>assert\<close> is \<open>AssertionError\<close>;
  \<open>AttributeError\<close> and \<open>UnboundLocalError\<close> carry the name that was looked up.
  \<open>RuntimeError\<close> and \<open>ValueError\<close> are raised by the tensor library and by \<open>math.log\<close>.
\<close>

datatype error =
    AssertionError
  | ZeroDivisionError
  | ValueError
  | RuntimeError
  | IndexError
  | AttributeError string
  | UnboundLocalError string

subsection \<open>The constructor\<close>

text \<open>
  The arguments of \<open>Mamba.__init__\<close> that the code reads (\<open>device\<close> and \<open>dtype\<close> are
  ignored by it; \<open>conv_init\<close> only changes the range of the random convolution weights).
  \<open>expand\<close> is an integer, as its default, so that \<open>int (expand * d_model)\<close> is the product.
\<close>

record mamba_args =
  arg_d_model :: int
  arg_d_state :: int
  arg_d_conv :: int
  arg_expand :: int
  arg_headdim :: int
  arg_ngroups :: int
  arg_A_init_range :: "real \<times> real"
  arg_D_has_hdim :: bool
  arg_rmsnorm :: bool
  arg_norm_before_gate :: bool
  arg_dt_min :: real
  arg_dt_max :: real
  arg_dt_init_floor :: real
  arg_bias :: bool
  arg_conv_bias :: bool
  arg_chunk_size :: int
  arg_use_fast_path :: bool
  arg_layer_idx :: "int option"

text \<open>
  What the constructor reads from its surroundings: the configuration flag
  \<open>config.sequence_parallel\<close>, the result of \<open>get_tensor_model_parallel_world_size\<close>, and
  the draws of the random number generator, indexed by position: \<open>torch.rand\<close> for the
  timesteps, \<open>uniform_\<close> for \<open>A\<close>, and the initial weights and biases of \<open>nn.Conv1d\<close>.
\<close>

record mamba_env =
  env_sequence_parallel :: bool
  env_world_size :: int
  env_rand_dt :: "nat \<Rightarrow> real"
  env_rand_A :: "nat \<Rightarrow> real"
  env_rand_conv_weight :: "nat \<Rightarrow> nat \<Rightarrow> real"
  env_rand_conv_bias :: "nat \<Rightarrow> real"

text \<open>
  The object after construction: exactly the attributes that \<open>__init__\<close> assigns, but for
  the three layers of other modules (\<open>in_proj\<close>, \<open>norm\<close>, \<open>out_proj\<close>), whose weights no
  property below reads. \<open>conv1d\<close> is kept as its weight (one row of \<open>d_conv\<close> taps per
  channel, the layout \<open>d 1 w\<close> flattened to \<open>d w\<close>) and its optional bias.
\<close>

record mamba =
  sequence_parallel :: bool
  d_model :: int
  d_state :: int
  d_conv :: int
  expand :: int
  d_inner :: int
  headdim :: int
  ngroups :: int
  nheads :: int
  D_has_hdim :: bool
  rmsnorm :: bool
  norm_before_gate :: bool
  chunk_size :: int
  use_fast_path :: bool
  layer_idx :: "int option"
  tensor_model_parallel_size :: int
  d_inner_local :: int
  ngroups_local :: int
  nheads_local :: int
  conv1d_weight :: "real list list"
  conv1d_bias :: "real list option"
  dt_bias :: "real list"
  A_log :: "real list"
  D :: "real list"

text \<open>
  The names of the attributes of a constructed object: every \<open>self.name = ...\<close> of
  \<open>__init__\<close>, in the order of the source; \<open>norm\<close> is assigned only under
  \<open>rmsnorm\<close>. Reading any other name from the object raises \<open>AttributeError\<close>
  (\<open>nn.Module.__getattr__\<close>).
\<close>

definition init_attrs :: "mamba \<Rightarrow> string list" where
  "init_attrs self =
     [''config'', ''d_model'', ''d_state'', ''d_conv'', ''conv_init'', ''expand'', ''d_inner'',
      ''headdim'', ''ngroups'', ''nheads'', ''D_has_hdim'', ''rmsnorm'', ''norm_before_gate'',
      ''chunk_size'', ''use_fast_path'', ''layer_idx'', ''tensor_model_parallel_size'',
      ''d_inner_local'', ''ngroups_local'', ''nheads_local'', ''in_proj'', ''conv1d'',
      ''activation'', ''act'', ''dt_bias'', ''A_log'', ''D'']
     @ (if rmsnorm self then [''norm''] else []) @ [''out_proj'']"

definition getattr :: "mamba \<Rightarrow> string \<Rightarrow> error + unit" where
  "getattr self name =
     (if name \<in> set (init_attrs self) then Inr () else Inl (AttributeError name))"

text \<open>
  The attribute values that \<open>__init__\<close> assigns (lines 75 to 163), computed as the
  source computes them. They are the object once every check of the constructor has
  passed.
\<close>

definition mamba_object :: "mamba_env \<Rightarrow> mamba_args \<Rightarrow> mamba" where
  "mamba_object env args =
    (let d_inner' = arg_expand args * arg_d_model args;
         nheads' = d_inner' div arg_headdim args;
         tp = env_world_size env;
         d_inner_local' = d_inner' div tp;
         ngroups_local' = arg_ngroups args div tp;
         nheads_local' = nheads' div tp;
         conv_dim = d_inner_local' + 2 * ngroups_local' * arg_d_state args
     in \<lparr>
       sequence_parallel = env_sequence_parallel env,
       d_model = arg_d_model args,
       d_state = arg_d_state args,
       d_conv = arg_d_conv args,
       expand = arg_expand args,
       d_inner = d_inner',
       headdim = arg_headdim args,
       ngroups = arg_ngroups args,
       nheads = nheads',
       D_has_hdim = arg_D_has_hdim args,
       rmsnorm = arg_rmsnorm args,
       norm_before_gate = arg_norm_before_gate args,
       chunk_size = arg_chunk_size args,
       use_fast_path = arg_use_fast_path args,
       layer_idx = arg_layer_idx args,
       tensor_model_parallel_size = tp,
       d_inner_local = d_inner_local',
       ngroups_local = ngroups_local',
       nheads_local = nheads_local',
       conv1d_weight =
         map (\<lambda>c. map (env_rand_conv_weight env c) [0..<nat (arg_d_conv args)])
           [0..<nat conv_dim],
       conv1d_bias =
         (if arg_conv_bias args
          then Some (map (env_rand_conv_bias env) [0..<nat conv_dim]) else None),
       dt_bias =
         map (\<lambda>i. inv_dt (dt_sample (env_rand_dt env i) (arg_dt_min args)
                              (arg_dt_max args) (arg_dt_init_floor args)))
           [0..<nat nheads_local'],
       A_log = A_log_init (map (env_rand_A env) [0..<nat nheads_local']),
       D = replicate
             (nat (if arg_D_has_hdim args then d_inner_local' else nheads_local')) 1
     \<rparr>)"

text \<open>
  \<open>Mamba.__init__\<close>, lines 73 to 180: the checks in the order of the source. \<open>%\<close>
  and \<open>//\<close> on Python integers are \<open>mod\<close> and \<open>div\<close> on \<open>int\<close> (both round
  towards minus infinity) and raise on a zero divisor. \<open>nn.Conv1d\<close> rejects a number
  of groups that is not positive, \<open>torch.rand\<close> and \<open>torch.ones\<close> a negative size,
  \<open>math.log\<close> an argument that is not positive. Without a convolution bias,
  \<open>self.conv1d.bias\<close> is \<open>None\<close> and the \<open>setattr\<close> of line 127 raises. The constructors of the layers of
  other modules (\<open>ColumnParallelLinear\<close>, \<open>RMSNormGated\<close>, \<open>RowParallelLinear\<close>)
  are taken to return, and \<open>d_conv\<close> to be a kernel width that \<open>nn.Conv1d\<close> accepts.
\<close>

definition Mamba_init :: "mamba_env \<Rightarrow> mamba_args \<Rightarrow> error + mamba" where
  "Mamba_init env args =
    (let d_inner' = arg_expand args * arg_d_model args;
         tp = env_world_size env
     in
     if arg_headdim args = 0 then Inl ZeroDivisionError
     else if d_inner' mod arg_headdim args \<noteq> 0 then Inl AssertionError
     else
      (let nheads' = d_inner' div arg_headdim args in
       if tp = 0 then Inl ZeroDivisionError
       else if d_inner' mod tp \<noteq> 0 then Inl AssertionError
       else if arg_ngroups args mod tp \<noteq> 0 then Inl AssertionError
       else if nheads' mod tp \<noteq> 0 then Inl AssertionError
       else if arg_bias args then Inl AssertionError
       else
        (let d_inner_local' = d_inner' div tp;
             ngroups_local' = arg_ngroups args div tp;
             nheads_local' = nheads' div tp;
             conv_dim = d_inner_local' + 2 * ngroups_local' * arg_d_state args
         in
         if conv_dim \<le> 0 then Inl ValueError
         else if \<not> arg_conv_bias args then Inl (AttributeError ''tensor_model_parallel'')
         else if nheads_local' < 0 then Inl RuntimeError
         else if arg_dt_max args \<le> 0 \<or> arg_dt_min args \<le> 0 then Inl ValueError
         else if \<not> (fst (arg_A_init_range args) > 0
                      \<and> snd (arg_A_init_range args) \<ge> fst (arg_A_init_range args))
              then Inl AssertionError
         else if (if arg_D_has_hdim args then d_inner_local' else nheads_local') < 0
              then Inl RuntimeError
         else Inr (mamba_object env args))))"

text \<open>The default arguments of the constructor, for a given model width.\<close>

definition default_args :: "int \<Rightarrow> mamba_args" where
  "default_args dm = \<lparr>
     arg_d_model = dm, arg_d_state = 128, arg_d_conv = 4, arg_expand = 2,
     arg_headdim = 64, arg_ngroups = 1, arg_A_init_range = (1, 16),
     arg_D_has_hdim = False, arg_rmsnorm = True, arg_norm_before_gate = False,
     arg_dt_min = 1 / 1000, arg_dt_max = 1 / 10, arg_dt_init_floor = 1 / 10000,
     arg_bias = False, arg_conv_bias = True, arg_chunk_size = 128,
     arg_use_fast_path = True, arg_layer_idx = None \<rparr>"

subsection \<open>The causal convolution stage\<close>

text \<open>
  \<open>nn.Conv1d\<close> as the constructor configures it (lines 116 to 125): one kernel of
  \<open>d_conv\<close> taps per channel (\<open>groups = conv_dim\<close>), zero padding of \<open>d_conv - 1\<close>
  positions on both sides, stride 1. For one channel with taps \<open>w\<close>, the output at
  position \<open>t\<close> is the bias plus the sum of \<open>w[j] * padded[t + j]\<close>, and there are
  \<open>len padded - (d_conv - 1)\<close> positions. The constructor of \<open>nn.Conv1d\<close> needs at
  least one tap.
\<close>

definition pad_both :: "nat \<Rightarrow> real list \<Rightarrow> real list" where
  "pad_both p xs = replicate p 0 @ xs @ replicate p 0"

definition conv1d_channel :: "real list \<Rightarrow> real option \<Rightarrow> real list \<Rightarrow> real list" where
  "conv1d_channel w b xs =
     (let k = length w; padded = pad_both (k - 1) xs
      in map (\<lambda>t. (case b of None \<Rightarrow> 0 | Some c \<Rightarrow> c)
                    + (\<Sum>j\<leftarrow>[0..<k]. w ! j * padded ! (t + j)))
           [0..<length padded - (k - 1)])"

text \<open>
  Line 227, the branch taken when the fused kernel is absent:
  \<open>self.act (self.conv1d xBC)[..., :seqlen]\<close> on a tensor laid out \<open>b d l\<close>, a list of
  batch entries, each a list of channels, each a sequence. \<open>seqlen\<close> is the length of the
  sequences. The library raises when the number of channels is not that of the kernel,
  and when the sequences are empty.
\<close>

definition conv_act_channel :: "real list \<Rightarrow> real option \<Rightarrow> real list \<Rightarrow> real list" where
  "conv_act_channel w b xs = map silu (take (length xs) (conv1d_channel w b xs))"

definition conv_act :: "mamba \<Rightarrow> real list list list \<Rightarrow> error + real list list list" where
  "conv_act self xBC =
     (if \<exists>xb \<in> set xBC. length xb \<noteq> length (conv1d_weight self) then Inl RuntimeError
      else if \<exists>xb \<in> set xBC. \<exists>xs \<in> set xb. xs = [] then Inl RuntimeError
      else Inr (map (\<lambda>xb. map (\<lambda>c. conv_act_channel (conv1d_weight self ! c)
                                     (map_option (\<lambda>bias. bias ! c) (conv1d_bias self))
                                     (xb ! c))
                              [0..<length xb]) xBC))"

subsection \<open>The reference scan\<close>

text \<open>
  \<open>Mamba.selective_scan_ref\<close>, lines 284 to 351, on the layout of its second
  docstring: \<open>u\<close>, \<open>delta\<close> and \<open>z\<close> are \<open>L B D\<close>, \<open>A\<close> is \<open>D N\<close>, \<open>B\<close> and \<open>C\<close> are
  \<open>L B N\<close>, \<open>D\<close> and \<open>delta_bias\<close> are vectors of length \<open>D\<close>. Elementwise operations
  are written with \<open>map2\<close>. The model is for tensors of these shapes: on shapes
  that do not fit each other the library raises, which \<open>map2\<close> does not show.
\<close>

type_synonym tensor1 = "real list"
type_synonym tensor2 = "real list list"
type_synonym tensor3 = "real list list list"

text \<open>\<open>torch.einsum 'bdn,bn->bd'\<close>: for each batch entry and channel, a dot product.\<close>

definition einsum_bdn_bn :: "tensor3 \<Rightarrow> tensor2 \<Rightarrow> tensor2" where
  "einsum_bdn_bn x c = map2 (\<lambda>xb cb. map (\<lambda>xd. sum_list (map2 (*) xd cb)) xb) x c"

text \<open>
  The loop of lines 333 to 345, with its state: the scan state \<open>x\<close>, the outputs
  \<open>ys\<close> collected so far, and \<open>last_state\<close>. Every statement of the body that would
  assign \<open>x\<close> is a comment in the source, so the body leaves \<open>x\<close> as it is.
\<close>

fun scan_ref_loop ::
  "tensor3 \<Rightarrow> nat \<Rightarrow> nat list \<Rightarrow> tensor3 \<times> tensor2 list \<times> tensor3 option
     \<Rightarrow> tensor3 \<times> tensor2 list \<times> tensor3 option" where
  "scan_ref_loop C' L [] st = st"
| "scan_ref_loop C' L (i # is) (x, ys, last_state) =
     (let y = einsum_bdn_bn x (C' ! i);
          last_state' = (if int i = int L - 1 then Some x else last_state)
      in scan_ref_loop C' L is (x, ys @ [y], last_state'))"

definition selective_scan_ref ::
  "tensor3 \<Rightarrow> tensor3 \<Rightarrow> tensor2 \<Rightarrow> tensor3 \<Rightarrow> tensor3 \<Rightarrow> tensor1 option \<Rightarrow> tensor3 option
     \<Rightarrow> tensor1 option \<Rightarrow> bool \<Rightarrow> bool \<Rightarrow> error + tensor3 \<times> tensor3 option" where
  "selective_scan_ref u delta A' B' C' D' z delta_bias delta_softplus return_last_state =
     (let delta1 = (case delta_bias of None \<Rightarrow> delta
                    | Some db \<Rightarrow> map (map (\<lambda>row. map2 (+) row db)) delta);
          delta2 = (if delta_softplus then map (map (map softplus)) delta1 else delta1);
          batch = (case u of [] \<Rightarrow> 0 | u0 # _ \<Rightarrow> length u0);
          dim = length A';
          dstate = (case A' of [] \<Rightarrow> 0 | a0 # _ \<Rightarrow> length a0);
          x0 = replicate batch (replicate dim (replicate dstate 0));
          (x, ys, last_state) = scan_ref_loop C' (length u) [0..<length u] (x0, [], None)
      in if ys = [] then Inl RuntimeError
         else
          (let y = ys;
               out1 = (case D' of None \<Rightarrow> y
                       | Some dv \<Rightarrow>
                           map2 (map2 (map2 (+))) y (map (map (\<lambda>row. map2 (*) row dv)) u));
               out2 = (case z of None \<Rightarrow> out1
                       | Some zv \<Rightarrow> map2 (map2 (map2 (\<lambda>o' g. o' * silu g))) out1 zv)
           in Inr (out2, if return_last_state then last_state else None)))"

subsection \<open>The recurrence of the Selective Scan Core, as the specification words it\<close>

text \<open>
  For one channel of one batch entry, with a state vector over the state dimension:
  \<open>state_t = exp (dt_eff * A) * state_{t-1} + dt_eff * B_t * x_t\<close> and
  \<open>y_t = C_t \<cdot> state_t + D * x_t\<close>, multiplied by \<open>SiLU (gate_t)\<close> when a gate is given,
  where \<open>dt_eff = softplus (dt_raw + dt_bias)\<close>. One timestep of input is the tuple
  \<open>(dt_eff, x_t, B_t, C_t, gate_t)\<close>.
\<close>

type_synonym ssm_input = "real \<times> real \<times> real list \<times> real list \<times> real option"

definition ssm_dt_eff :: "real \<Rightarrow> real \<Rightarrow> real" where
  "ssm_dt_eff dt_raw bias = softplus (dt_raw + bias)"

definition ssm_state_step :: "real list \<Rightarrow> real list \<Rightarrow> ssm_input \<Rightarrow> real list" where
  "ssm_state_step A' s inp =
     (case inp of (dt, x, Bv, Cv, g) \<Rightarrow>
        map (\<lambda>n. exp (dt * A' ! n) * s ! n + dt * Bv ! n * x) [0..<length A'])"

definition ssm_output :: "real list \<Rightarrow> real \<Rightarrow> real list \<Rightarrow> ssm_input \<Rightarrow> real" where
  "ssm_output A' D' s inp =
     (case inp of (dt, x, Bv, Cv, g) \<Rightarrow>
        (let y = (\<Sum>n\<leftarrow>[0..<length A']. Cv ! n * s ! n) + D' * x
         in case g of None \<Rightarrow> y | Some gz \<Rightarrow> y * silu gz))"

fun ssm_scan :: "real list \<Rightarrow> real \<Rightarrow> real list \<Rightarrow> ssm_input list \<Rightarrow> real list \<times> real list" where
  "ssm_scan A' D' s [] = ([], s)"
| "ssm_scan A' D' s (inp # rest) =
     (let s' = ssm_state_step A' s inp;
          (ys, final) = ssm_scan A' D' s' rest
      in (ssm_output A' D' s' inp # ys, final))"

subsection \<open>The chunked scan\<close>

text \<open>
  Modelled from the spec: \<open>mamba_chunk_scan_fused\<close> (module \<open>src.ops.triton.flashmamba\<close>)
  is called by \<open>Mamba.forward\<close> at line 250 but its code is not among the sources. The
  specification says that it processes the whole sequence in fixed-size chunks, computes
  the recurrence inside a chunk in parallel, and carries the state from chunk to chunk
  sequentially. Inside a chunk the state at position \<open>j\<close> is therefore computed directly
  from the incoming state and the inputs of the chunk, with the decay between two
  positions being the exponential of the summed \<open>dt * A\<close> in between.
\<close>

function chunks :: "nat \<Rightarrow> 'a list \<Rightarrow> 'a list list" where
  "chunks n xs = (if n = 0 \<or> xs = [] then [] else take n xs # chunks n (drop n xs))"
  by pat_completeness auto
termination
  by (relation "measure (\<lambda>(n, xs). length xs)") auto

declare chunks.simps [simp del]

text \<open>
  Modelled from the spec: the decay of the state from after input \<open>i\<close> to after input
  \<open>j\<close> of a chunk, for one state dimension with decay parameter \<open>a\<close>.
\<close>

definition seg_decay :: "real \<Rightarrow> ssm_input list \<Rightarrow> nat \<Rightarrow> nat \<Rightarrow> real" where
  "seg_decay a c i j = exp (\<Sum>r\<leftarrow>[i..<j]. fst (c ! r) * a)"

text \<open>
  Modelled from the spec: the state after the first \<open>j\<close> inputs of a chunk, computed
  for all positions independently of each other: the decayed incoming state plus the
  decayed contribution \<open>dt * B * x\<close> of every earlier input of the chunk.
\<close>

definition chunk_state :: "real list \<Rightarrow> real list \<Rightarrow> ssm_input list \<Rightarrow> nat \<Rightarrow> real list" where
  "chunk_state A' s_in c j =
     map (\<lambda>n. seg_decay (A' ! n) c 0 j * s_in ! n
              + (\<Sum>i\<leftarrow>[0..<j].
                   (case c ! i of (dt, x, Bv, Cv, g) \<Rightarrow>
                      seg_decay (A' ! n) c (Suc i) j * (dt * Bv ! n * x))))
       [0..<length A']"

text \<open>
  Modelled from the spec: the outputs of one chunk and the state it hands on.
\<close>

definition chunk_scan :: "real list \<Rightarrow> real \<Rightarrow> real list \<Rightarrow> ssm_input list \<Rightarrow> real list \<times> real list" where
  "chunk_scan A' D' s_in c =
     (map (\<lambda>j. ssm_output A' D' (chunk_state A' s_in c (Suc j)) (c ! j)) [0..<length c],
      if c = [] then s_in else chunk_state A' s_in c (length c))"

text \<open>
  Modelled from the spec: the chunks in sequence, each starting from the state that the
  previous one hands on; the whole scan starts from the zero state.
\<close>

fun chunk_carry :: "real list \<Rightarrow> real \<Rightarrow> real list \<Rightarrow> ssm_input list list \<Rightarrow> real list \<times> real list" where
  "chunk_carry A' D' s [] = ([], s)"
| "chunk_carry A' D' s (c # cs) =
     (let (ys, s') = chunk_scan A' D' s c;
          (ys', final) = chunk_carry A' D' s' cs
      in (ys @ ys', final))"

definition mamba_chunk_scan ::
  "real list \<Rightarrow> real \<Rightarrow> nat \<Rightarrow> ssm_input list \<Rightarrow> real list \<times> real list" where
  "mamba_chunk_scan A' D' csize inps =
     chunk_carry A' D' (replicate (length A') 0) (chunks csize inps)"

subsection \<open>The inference cache\<close>

text \<open>
  For the cache and the control flow of \<open>forward\<close> and \<open>step\<close>, a tensor is its shape
  and its elements in row-major order. \<open>torch.zeros\<close> raises on a negative size;
  \<open>tensor_zero\<close> is the method \<open>zero_\<close>, which overwrites the elements in place.
\<close>

record tensor =
  shape :: "nat list"
  elems :: "real list"

definition torch_zeros :: "int list \<Rightarrow> error + tensor" where
  "torch_zeros dims =
     (if \<exists>n \<in> set dims. n < 0 then Inl RuntimeError
      else Inr \<lparr> shape = map nat dims, elems = replicate (prod_list (map nat dims)) 0 \<rparr>)"

definition tensor_zero :: "tensor \<Rightarrow> tensor" where
  "tensor_zero t = t \<lparr> elems := replicate (length (elems t)) 0 \<rparr>"

text \<open>
  The inference session: \<open>key_value_memory_dict\<close>, from layer index to the pair of
  buffers, and \<open>seqlen_offset\<close>. The buffers are shared between the dictionary and the
  caller and are mutated in place, so every function below returns the session as it is
  after the call, also when the call raises.
\<close>

record inference_params =
  key_value_memory_dict :: "int \<rightharpoonup> tensor \<times> tensor"
  seqlen_offset :: int

datatype dtype = Float32 | Float16 | BFloat16

text \<open>
  \<open>Mamba._get_states_from_cache\<close>, lines 428 to 452. In the branch of a missing
  key, the arguments of the second \<open>torch.zeros\<close> read \<open>self.dt_proj\<close>.
\<close>

definition get_states_from_cache ::
  "mamba \<Rightarrow> inference_params \<Rightarrow> int \<Rightarrow> bool \<Rightarrow> (error + tensor \<times> tensor) \<times> inference_params" where
  "get_states_from_cache self ip batch_size initialize_states =
     (case layer_idx self of
        None \<Rightarrow> (Inl AssertionError, ip)
      | Some k \<Rightarrow>
         (case key_value_memory_dict ip k of
            None \<Rightarrow>
              (case torch_zeros [batch_size, d_inner_local self, d_conv self] of
                 Inl e \<Rightarrow> (Inl e, ip)
               | Inr conv_state \<Rightarrow>
                  (case getattr self ''dt_proj'' of
                     Inl e \<Rightarrow> (Inl e, ip)
                   | Inr _ \<Rightarrow>
                      (case torch_zeros [batch_size, d_inner_local self, d_state self] of
                         Inl e \<Rightarrow> (Inl e, ip)
                       | Inr ssm_state \<Rightarrow>
                          (Inr (conv_state, ssm_state),
                           ip \<lparr> key_value_memory_dict :=
                                  (key_value_memory_dict ip)(k \<mapsto> (conv_state, ssm_state)) \<rparr>))))
          | Some (conv_state, ssm_state) \<Rightarrow>
              if initialize_states
              then (Inr (tensor_zero conv_state, tensor_zero ssm_state),
                    ip \<lparr> key_value_memory_dict :=
                           (key_value_memory_dict ip)(k \<mapsto> (tensor_zero conv_state, tensor_zero ssm_state)) \<rparr>)
              else (Inr (conv_state, ssm_state), ip)))"

text \<open>
  \<open>Mamba.allocate_inference_cache\<close>, lines 415 to 426: \<open>self.dt_proj\<close> is read only
  when no \<open>dtype\<close> is passed.
\<close>

definition allocate_inference_cache ::
  "mamba \<Rightarrow> int \<Rightarrow> int \<Rightarrow> dtype option \<Rightarrow> error + tensor \<times> tensor" where
  "allocate_inference_cache self batch_size max_seqlen dt =
     (case torch_zeros [batch_size, d_inner_local self, d_conv self] of
        Inl e \<Rightarrow> Inl e
      | Inr conv_state \<Rightarrow>
         (case (if dt = None then getattr self ''dt_proj'' else Inr ()) of
            Inl e \<Rightarrow> Inl e
          | Inr _ \<Rightarrow>
             (case torch_zeros [batch_size, d_inner_local self, d_state self] of
                Inl e \<Rightarrow> Inl e
              | Inr ssm_state \<Rightarrow> Inr (conv_state, ssm_state))))"

subsection \<open>Single-step decoding and the forward pass\<close>

text \<open>
  The tensor computations of \<open>step\<close> and \<open>forward\<close> that no property below depends on
  are parameters: each stands for a run of calls into the tensor library and the
  parallel runtime, which returns its results or raises.
  \<^item> \<open>step_conv\<close>: lines 358 to 381 of \<open>step\<close>, from the input projection to the
    convolution update; it returns \<open>x\<close> and \<open>z\<close>, and the convolution buffer as it left it.
  \<^item> \<open>step_ssm\<close>: lines 384 to 413 of \<open>step\<close>, given \<open>x\<close>, \<open>z\<close> and the state buffer;
    it returns the output and the state buffer as it left it.
  \<^item> \<open>fwd_project\<close>: lines 200 to 217 of \<open>forward\<close>; it returns \<open>z\<close>, \<open>xBC\<close> and \<open>dt\<close>.
  \<^item> \<open>fwd_tail\<close>: lines 225 to 282 of \<open>forward\<close>, given \<open>z\<close>, \<open>xBC\<close>, \<open>dt\<close> and the
    optional state buffer; it returns the output and the state buffer as it left it.
\<close>

record kernels =
  step_conv :: "mamba \<Rightarrow> tensor \<Rightarrow> tensor \<Rightarrow> (error + tensor \<times> tensor) \<times> tensor"
  step_ssm :: "mamba \<Rightarrow> tensor \<Rightarrow> tensor \<Rightarrow> tensor \<Rightarrow> (error + tensor) \<times> tensor"
  fwd_project :: "mamba \<Rightarrow> tensor \<Rightarrow> error + tensor \<times> tensor \<times> tensor"
  fwd_tail :: "mamba \<Rightarrow> tensor \<Rightarrow> tensor \<Rightarrow> tensor \<Rightarrow> tensor option
                 \<Rightarrow> (error + tensor) \<times> tensor option"

text \<open>
  \<open>Mamba.step\<close>, lines 353 to 413. The result comes with the two buffers as the call
  leaves them. Line 384 reads \<open>self.x_proj\<close>, line 387 \<open>self.dt_rank\<close>, line 390
  \<open>self.dt_proj\<close>.
\<close>

definition step ::
  "mamba \<Rightarrow> kernels \<Rightarrow> tensor \<Rightarrow> tensor \<Rightarrow> tensor \<Rightarrow> (error + tensor) \<times> tensor \<times> tensor" where
  "step self K hidden_states conv_state ssm_state =
     (case shape hidden_states of
        [] \<Rightarrow> (Inl IndexError, conv_state, ssm_state)
      | l # _ \<Rightarrow>
         if l \<noteq> 1 then (Inl AssertionError, conv_state, ssm_state)
         else
          (case step_conv K self hidden_states conv_state of
             (Inl e, conv_state') \<Rightarrow> (Inl e, conv_state', ssm_state)
           | (Inr (x, z), conv_state') \<Rightarrow>
              (case getattr self ''x_proj'' of
                 Inl e \<Rightarrow> (Inl e, conv_state', ssm_state)
               | Inr _ \<Rightarrow>
                  (case getattr self ''dt_rank'' of
                     Inl e \<Rightarrow> (Inl e, conv_state', ssm_state)
                   | Inr _ \<Rightarrow>
                      (case getattr self ''dt_proj'' of
                         Inl e \<Rightarrow> (Inl e, conv_state', ssm_state)
                       | Inr _ \<Rightarrow>
                          (case step_ssm K self x z ssm_state of
                             (r, ssm_state') \<Rightarrow> (r, conv_state', ssm_state')))))))"

text \<open>
  Writing the buffers of this layer back into the session: the in-place updates of
  \<open>step\<close> and \<open>forward\<close> are visible through the dictionary, which holds the same objects.
\<close>

definition store_states :: "mamba \<Rightarrow> inference_params \<Rightarrow> tensor \<times> tensor \<Rightarrow> inference_params" where
  "store_states self ip cs =
     (case layer_idx self of
        None \<Rightarrow> ip
      | Some k \<Rightarrow> ip \<lparr> key_value_memory_dict := (key_value_memory_dict ip)(k \<mapsto> cs) \<rparr>)"

text \<open>
  \<open>Mamba.forward\<close> from line 199 on. At line 223 the local variable \<open>x\<close> has no value
  yet (its only assignment is at line 241), so the statement raises when it is reached,
  which is when a convolution buffer is present.
\<close>

definition forward_main ::
  "mamba \<Rightarrow> kernels \<Rightarrow> tensor \<Rightarrow> (tensor \<times> tensor) option
     \<Rightarrow> (error + tensor) \<times> (tensor \<times> tensor) option" where
  "forward_main self K hidden_states states =
     (case fwd_project K self hidden_states of
        Inl e \<Rightarrow> (Inl e, states)
      | Inr (z, xBC, dt) \<Rightarrow>
         (case states of
            Some (conv_state, ssm_state) \<Rightarrow> (Inl (UnboundLocalError ''x''), states)
          | None \<Rightarrow>
             (case fwd_tail K self z xBC dt None of (r, _) \<Rightarrow> (r, None))))"

text \<open>
  \<open>Mamba.forward\<close>, lines 182 to 282. The result comes with the session as the call
  leaves it.
\<close>

definition forward ::
  "mamba \<Rightarrow> kernels \<Rightarrow> tensor \<Rightarrow> inference_params option
     \<Rightarrow> (error + tensor) \<times> inference_params option" where
  "forward self K hidden_states inference_params =
     (case shape hidden_states of
        [l, batch, dm] \<Rightarrow>
          (case inference_params of
             None \<Rightarrow> (fst (forward_main self K hidden_states None), None)
           | Some ip \<Rightarrow>
              if sequence_parallel self then (Inl AssertionError, Some ip)
              else
               (case get_states_from_cache self ip (int batch) False of
                  (Inl e, ip') \<Rightarrow> (Inl e, Some ip')
                | (Inr (conv_state, ssm_state), ip') \<Rightarrow>
                   if seqlen_offset ip' > 0
                   then (case step self K hidden_states conv_state ssm_state of
                           (r, conv_state', ssm_state') \<Rightarrow>
                             (r, Some (store_states self ip' (conv_state', ssm_state'))))
                   else (case forward_main self K hidden_states (Some (conv_state, ssm_state)) of
                           (r, Some cs) \<Rightarrow> (r, Some (store_states self ip' cs))
                         | (r, None) \<Rightarrow> (r, Some ip'))))
      | _ \<Rightarrow> (Inl ValueError, inference_params))"

text \<open>
  Concrete inputs for evaluating the code: an environment of one shard and one of
  two, and the outcomes of the tensor computations for the layers, inputs and buffers
  below. There the projection of \<open>forward\<close> returns. The convolution update of \<open>step\<close>
  raises: the \<open>x\<close> of line 364 is one half of the projection, which has
  \<open>2 * d_inner_local + 2 * ngroups_local * d_state + nheads_local\<close> columns, so \<open>x\<close> has
  more columns than the \<open>d_inner_local\<close> channels of a buffer that this class allocates,
  and the assignment of line 369 is refused (a buffer of zeros is left as it is by
  line 368).
\<close>

definition env1 :: mamba_env where
  "env1 = \<lparr> env_sequence_parallel = False, env_world_size = 1,
             env_rand_dt = (\<lambda>i. 1 / 2), env_rand_A = (\<lambda>i. 1),
             env_rand_conv_weight = (\<lambda>c j. 1), env_rand_conv_bias = (\<lambda>c. 0) \<rparr>"

definition env2 :: mamba_env where
  "env2 = env1 \<lparr> env_world_size := 2 \<rparr>"

definition kernels0 :: kernels where
  "kernels0 = \<lparr>
     step_conv = (\<lambda>self h c. (Inl RuntimeError, c)),
     step_ssm = (\<lambda>self x z s. (Inr x, s)),
     fwd_project = (\<lambda>self h. Inr (h, h, h)),
     fwd_tail = (\<lambda>self z xBC dt s. (Inr z, s)) \<rparr>"

definition hidden1 :: "nat \<Rightarrow> tensor" where
  "hidden1 l = \<lparr> shape = [l, 1, 64], elems = replicate (l * 64) 1 \<rparr>"

definition session0 :: inference_params where
  "session0 = \<lparr> key_value_memory_dict = Map.empty, seqlen_offset = 0 \<rparr>"

definition args0 :: mamba_args where
  "args0 = (default_args 64) \<lparr> arg_layer_idx := Some 0 \<rparr>"

definition args_tp2 :: mamba_args where
  "args_tp2 = (default_args 64) \<lparr> arg_ngroups := 2 \<rparr>"

definition args_small :: mamba_args where
  "args_small = (default_args 2) \<lparr> arg_d_state := 1, arg_d_conv := 2, arg_expand := 1,
                   arg_headdim := 1 \<rparr>"

text \<open>
  The layers that the constructor returns for these arguments (the lemmas
  \<open>layer_default_init\<close>, \<open>layer0_init\<close>, \<open>layer_tp2_init\<close> and \<open>layer_small_init\<close> below).
\<close>

definition layer_default :: mamba where
  "layer_default = projr (Mamba_init env1 (default_args 64))"

definition layer0 :: mamba where
  "layer0 = projr (Mamba_init env1 args0)"

definition layer_tp2 :: mamba where
  "layer_tp2 = projr (Mamba_init env2 args_tp2)"

definition layer_small :: mamba where
  "layer_small = projr (Mamba_init env1 args_small)"

text \<open>
  A session whose dictionary the caller has filled for layer 0 with the buffers of
  \<open>allocate_inference_cache\<close>, called with a \<open>dtype\<close>.
\<close>

definition buffers0 :: "tensor \<times> tensor" where
  "buffers0 = projr (allocate_inference_cache layer0 1 16 (Some Float16))"

definition session_alloc :: inference_params where
  "session_alloc = session0 \<lparr> key_value_memory_dict := [0 \<mapsto> buffers0] \<rparr>"

text \<open>
  Two convolution inputs of one batch entry, four channels and three positions that
  differ only at the last position of the first channel, and a sequence of six
  timesteps for the scan.
\<close>

definition xBC_a :: "real list list list" where
  "xBC_a = [[[1, 2, 3], [0, 0, 0], [0, 0, 0], [0, 0, 0]]]"

definition xBC_b :: "real list list list" where
  "xBC_b = [[[1, 2, 7], [0, 0, 0], [0, 0, 0], [0, 0, 0]]]"

definition inps6 :: "ssm_input list" where
  "inps6 = [(1 / 10, 1, [1], [1], None), (1 / 5, 2, [1], [2], None),
            (1 / 10, - 1, [0], [1], None), (3 / 10, 0, [1], [1], None),
            (1 / 10, 4, [2], [- 1], None), (1 / 2, 1, [1], [1], None)]"

section \<open>Properties\<close>

subsection \<open>Helper lemmas on the elementwise functions\<close>


lemma inv_dt_less: "0 < dt \<Longrightarrow> inv_dt dt < dt"
proof -
  assume "0 < dt"
  then have "exp (- dt) < 1" by simp
  moreover have "0 < exp (- dt)" by simp
  ultimately have "ln (1 - exp (- dt)) < 0" by (simp add: ln_less_zero)
  then show ?thesis by (simp add: inv_dt_def expm1_def)
qed

lemma exp_inv_dt: "0 < dt \<Longrightarrow> exp (inv_dt dt) = exp dt - 1"
proof -
  assume pos: "0 < dt"
  then have lt: "exp (- dt) < 1" by simp
  have "exp (inv_dt dt) = exp dt * exp (ln (1 - exp (- dt)))"
    by (simp add: inv_dt_def expm1_def exp_add)
  also have "\<dots> = exp dt * (1 - exp (- dt))" using lt by simp
  also have "\<dots> = exp dt - exp dt * exp (- dt)" by (simp add: algebra_simps)
  also have "\<dots> = exp dt - 1" by (simp add: exp_minus)
  finally show ?thesis .
qed

lemma softplus_inv_dt:
  assumes "0 < dt" and "dt \<le> softplus_threshold"
  shows "softplus (inv_dt dt) = dt"
proof -
  have "inv_dt dt < dt" using assms(1) by (rule inv_dt_less)
  then have "\<not> inv_dt dt > softplus_threshold" using assms(2) by simp
  then have "softplus (inv_dt dt) = ln (1 + exp (inv_dt dt))"
    by (simp add: softplus_def)
  also have "\<dots> = ln (exp dt)" using assms(1) by (simp add: exp_inv_dt)
  finally show ?thesis by simp
qed

lemma dt_sample_pos: "0 < dt_sample u dt_min dt_max dt_init_floor"
  unfolding dt_sample_def by (rule less_le_trans [OF exp_gt_zero max.cobounded1])

subsection \<open>Rounding to single precision\<close>

lemma rne_floor: "\<lfloor>y\<rfloor> \<le> rne y" "rne y \<le> \<lfloor>y\<rfloor> + 1"
  by (simp_all add: rne_def Let_def)

lemma rne_nonneg: "0 \<le> y \<Longrightarrow> 0 \<le> rne y"
proof -
  assume "0 \<le> y"
  then have "0 \<le> \<lfloor>y\<rfloor>" by simp
  with rne_floor(1) [of y] show ?thesis by linarith
qed

lemma rne_of_int: "rne (of_int n) = n"
  by (simp add: rne_def)

lemma rne_le_int: "y \<le> of_int n \<Longrightarrow> rne y \<le> n"
proof -
  assume a: "y \<le> of_int n"
  from floor_mono [OF a] have fl: "\<lfloor>y\<rfloor> \<le> n" by simp
  show ?thesis
  proof (cases "\<lfloor>y\<rfloor> = n")
    case True
    then have "of_int n \<le> y" using of_int_floor_le [of y] by simp
    with a have "y = of_int n" by simp
    then show ?thesis by (simp add: rne_of_int)
  next
    case False
    with fl have "\<lfloor>y\<rfloor> + 1 \<le> n" by simp
    with rne_floor(2) [of y] show ?thesis by linarith
  qed
qed

lemma rne_nonpos: "y \<le> 0 \<Longrightarrow> rne y \<le> 0"
  using rne_le_int [of y 0] by simp

lemma rne_ge_int: "of_int n \<le> y \<Longrightarrow> n \<le> rne y"
proof -
  assume "of_int n \<le> y"
  then have "n \<le> \<lfloor>y\<rfloor>" by (simp add: le_floor_iff)
  with rne_floor(1) [of y] show ?thesis by linarith
qed

lemma rne_zero: "0 \<le> y \<Longrightarrow> y < 1 / 2 \<Longrightarrow> rne y = 0"
proof -
  assume a: "0 \<le> y" "y < 1 / 2"
  then have "\<lfloor>y\<rfloor> = 0" by (simp add: floor_eq_iff)
  then show ?thesis using a by (simp add: rne_def Let_def)
qed

lemma f32_ulp_pos: "0 < f32_ulp x"
  by (simp add: f32_ulp_def)

lemma f32_max_pos: "1 < f32_max"
  by (simp add: f32_max_def)

lemma f32_exponent_le: "0 < y \<Longrightarrow> 2 powr of_int \<lfloor>log 2 y\<rfloor> \<le> y"
  using le_log_iff [of 2 y "of_int \<lfloor>log 2 y\<rfloor>"] by simp

lemma f32_exponent_gt: "0 < y \<Longrightarrow> y < 2 powr (of_int \<lfloor>log 2 y\<rfloor> + 1)"
  using log_less_iff [of 2 y "of_int \<lfloor>log 2 y\<rfloor> + 1"]
    real_of_int_floor_add_one_gt [of "log 2 y"] by simp

lemma f32_round_nonneg:
  assumes "0 \<le> y"
  shows "f32_round y = PInf \<or> (\<exists>r. f32_round y = Fin r \<and> 0 \<le> r)"
proof -
  have "0 \<le> y / f32_ulp y" using assms f32_ulp_pos [of y] by simp
  then have "0 \<le> rne (y / f32_ulp y)" by (rule rne_nonneg)
  then have "0 \<le> of_int (rne (y / f32_ulp y)) * f32_ulp y"
    using f32_ulp_pos [of y] by simp
  then show ?thesis using f32_max_pos by (auto simp: f32_round_def Let_def)
qed

lemma f32_round_nonpos:
  assumes "y \<le> 0"
  shows "f32_round y = NInf \<or> (\<exists>r. f32_round y = Fin r \<and> r \<le> 0)"
proof -
  have "y / f32_ulp y \<le> 0" using assms f32_ulp_pos [of y] by (simp add: divide_le_0_iff)
  then have "rne (y / f32_ulp y) \<le> 0" by (rule rne_nonpos)
  then have "of_int (rne (y / f32_ulp y)) * f32_ulp y \<le> 0"
    using f32_ulp_pos [of y] by (simp add: mult_le_0_iff)
  then show ?thesis using f32_max_pos by (auto simp: f32_round_def Let_def)
qed

lemma f32_ulp_subnormal:
  assumes "0 < y" and "y < 2 powr (- 126)"
  shows "f32_ulp y = 2 powr (- 149)"
proof -
  have "log 2 y < - 126" using assms log_less_iff [of 2 y "- 126"] by simp
  then have "\<lfloor>log 2 y\<rfloor> < - 126" using floor_less_iff [of "log 2 y" "- 126"] by simp
  then have "max (- 126) \<lfloor>log 2 \<bar>y\<bar>\<rfloor> = - 126" using assms(1) by simp
  then have "f32_ulp y = 2 powr (of_int (- 126) - 23)" by (simp only: f32_ulp_def)
  then show ?thesis by simp
qed

lemma f32_round_underflow:
  assumes "0 \<le> y" and "y < 2 powr (- 150)"
  shows "f32_round y = Fin 0"
proof (cases "y = 0")
  case True
  have "rne 0 = 0" using rne_of_int [of 0] by simp
  then show ?thesis using True f32_max_pos by (simp add: f32_round_def)
next
  case False
  with assms have p: "0 < y" by simp
  have "(2::real) powr (- 150) \<le> 2 powr (- 126)" by (intro powr_mono) simp_all
  with assms(2) have "y < 2 powr (- 126)" by (rule less_le_trans)
  with p have u: "f32_ulp y = 2 powr (- 149)" by (rule f32_ulp_subnormal)
  have h: "(2::real) powr (- 150) = 2 powr (- 149) * (1 / 2)"
    using powr_add [of "2::real" "- 149" "- 1"] by (simp add: powr_minus)
  have "y / 2 powr (- 149) < 1 / 2"
    using assms(2) unfolding h by (simp add: divide_less_eq mult.commute)
  then have "y / f32_ulp y < 1 / 2" by (simp only: u)
  moreover have "0 \<le> y / f32_ulp y" using p f32_ulp_pos [of y] by simp
  ultimately have "rne (y / f32_ulp y) = 0" by (simp only: rne_zero)
  then show ?thesis using f32_max_pos by (simp add: f32_round_def)
qed

lemma f32_round_positive:
  assumes "2 powr (- 149) \<le> y"
  shows "f32_round y = PInf \<or> (\<exists>r. f32_round y = Fin r \<and> 0 < r)"
proof -
  have "(0::real) < 2 powr (- 149)" by simp
  from this assms have p: "0 < y" by (rule less_le_trans)
  have "f32_ulp y \<le> y"
  proof (cases "- 126 \<le> \<lfloor>log 2 y\<rfloor>")
    case True
    then have "max (- 126) \<lfloor>log 2 \<bar>y\<bar>\<rfloor> = \<lfloor>log 2 y\<rfloor>" using p by simp
    then have "f32_ulp y = 2 powr (of_int \<lfloor>log 2 y\<rfloor> - 23)" by (simp only: f32_ulp_def)
    also have "\<dots> \<le> 2 powr of_int \<lfloor>log 2 y\<rfloor>" by (intro powr_mono) simp_all
    also have "\<dots> \<le> y" using p by (rule f32_exponent_le)
    finally show ?thesis .
  next
    case False
    then have "max (- 126) \<lfloor>log 2 \<bar>y\<bar>\<rfloor> = - 126" using p by simp
    then have "f32_ulp y = 2 powr (of_int (- 126) - 23)" by (simp only: f32_ulp_def)
    then have "f32_ulp y = 2 powr (- 149)" by simp
    then show ?thesis using assms by simp
  qed
  then have "of_int 1 \<le> y / f32_ulp y" using f32_ulp_pos [of y] by (simp add: le_divide_eq)
  then have "1 \<le> rne (y / f32_ulp y)" by (rule rne_ge_int)
  then have "0 < of_int (rne (y / f32_ulp y)) * f32_ulp y"
    using f32_ulp_pos [of y] by simp
  then show ?thesis using f32_max_pos by (auto simp: f32_round_def Let_def)
qed

lemma f32_ulp_eq:
  assumes "2 powr of_int k \<le> \<bar>y\<bar>" and "\<bar>y\<bar> < 2 powr (of_int k + 1)" and "- 126 \<le> k"
  shows "f32_ulp y = 2 powr (of_int k - 23)"
proof -
  have "(0::real) < 2 powr of_int k" by simp
  from this assms(1) have p: "0 < \<bar>y\<bar>" by (rule less_le_trans)
  have "of_int k \<le> log 2 \<bar>y\<bar>" using le_log_iff [of 2 "\<bar>y\<bar>" "of_int k"] p assms(1) by simp
  moreover have "log 2 \<bar>y\<bar> < of_int k + 1"
    using log_less_iff [of 2 "\<bar>y\<bar>" "of_int k + 1"] p assms(2) by simp
  ultimately have "\<lfloor>log 2 \<bar>y\<bar>\<rfloor> = k" by (rule floor_unique)
  then have "max (- 126) \<lfloor>log 2 \<bar>y\<bar>\<rfloor> = k" using assms(3) by simp
  then show ?thesis by (simp only: f32_ulp_def)
qed

lemma f32_round_exact:
  assumes "x = of_int m * f32_ulp x" and "\<bar>x\<bar> \<le> f32_max"
  shows "f32_round x = Fin x"
proof -
  have "x / f32_ulp x = of_int m"
    using assms(1) f32_ulp_pos [of x] by (simp add: divide_eq_eq)
  then have "rne (x / f32_ulp x) = m" by (simp only: rne_of_int)
  then have "of_int (rne (x / f32_ulp x)) * f32_ulp x = x" using assms(1) by simp
  moreover have "\<not> f32_max < x" "\<not> x < - f32_max" using assms(2) by linarith+
  ultimately show ?thesis by (simp add: f32_round_def Let_def)
qed

lemma two_powr_m23: "(2::real) powr (- 23) = 1 / 8388608"
  by (simp add: powr_minus inverse_eq_divide)

lemma two_powr_m16: "(2::real) powr (- 16) = 1 / 65536"
  by (simp add: powr_minus inverse_eq_divide)

lemma f32_ulp_one: "f32_ulp 1 = 2 powr (- 23)" "f32_ulp (- 1) = 2 powr (- 23)"
  using f32_ulp_eq [of 0 1] f32_ulp_eq [of 0 "- 1"] by simp_all

lemma f32_ulp_160: "f32_ulp (- 160) = 2 powr (- 16)"
  using f32_ulp_eq [of 7 "- 160"] by simp

lemma f32_round_one: "f32_round 1 = Fin 1" "f32_round (- 1) = Fin (- 1)"
proof -
  show "f32_round 1 = Fin 1"
    using f32_max_pos by (intro f32_round_exact [of _ 8388608]) (simp_all add: f32_ulp_one two_powr_m23)
  show "f32_round (- 1) = Fin (- 1)"
    using f32_max_pos by (intro f32_round_exact [of _ "- 8388608"]) (simp_all add: f32_ulp_one two_powr_m23)
qed

lemma f32_round_160: "f32_round (- 160) = Fin (- 160)"
  by (intro f32_round_exact [of _ "- 10485760"]) (simp_all add: f32_ulp_160 two_powr_m16 f32_max_def)

lemma f32_round_le_one:
  assumes "0 \<le> y" and "y \<le> 1"
  shows "\<exists>r. f32_round y = Fin r \<and> 0 \<le> r \<and> r \<le> 1"
proof (cases "y = 1")
  case True
  then show ?thesis by (simp add: f32_round_one)
next
  case False
  with assms have lt: "y < 1" by simp
  show ?thesis
  proof (cases "y < 2 powr (- 150)")
    case True
    with assms(1) have "f32_round y = Fin 0" by (rule f32_round_underflow)
    then show ?thesis by simp
  next
    case False
    have "(0::real) < 2 powr (- 150)" by simp
    with False have p: "0 < y" by linarith
    let ?r = "of_int (rne (y / f32_ulp y)) * f32_ulp y"
    have nn: "0 \<le> ?r"
      using rne_nonneg [of "y / f32_ulp y"] p f32_ulp_pos [of y] by simp
    define E where "E = max (- 126) \<lfloor>log 2 \<bar>y\<bar>\<rfloor>"
    have "log 2 y < 0" using p lt by simp
    then have fl: "\<lfloor>log 2 y\<rfloor> < 0" using floor_less_iff [of "log 2 y" 0] by simp
    have ay: "\<bar>y\<bar> = y" using p by simp
    have E1: "E \<le> - 1" using fl unfolding E_def ay by linarith
    have E2: "\<lfloor>log 2 y\<rfloor> \<le> E" unfolding E_def ay by linarith
    have u: "f32_ulp y = 2 powr (of_int E - 23)" by (simp only: f32_ulp_def E_def)
    have "y < 2 powr (of_int \<lfloor>log 2 y\<rfloor> + 1)" using p by (rule f32_exponent_gt)
    also have "\<dots> \<le> 2 powr (of_int E + 1)" using E2 by (intro powr_mono) simp_all
    finally have y1: "y < 2 powr (of_int E + 1)" .
    have split: "(2::real) powr (of_int E + 1) = 2 powr 24 * 2 powr (of_int E - 23)"
      using powr_add [of "2::real" 24 "of_int E - 23"] by (simp add: add.commute)
    have p24: "(2::real) powr 24 = of_int 16777216" by simp
    have "y / f32_ulp y < of_int 16777216"
      using y1 f32_ulp_pos [of y] unfolding split u p24 by (simp add: divide_less_eq)
    then have "y / f32_ulp y \<le> of_int 16777216" by simp
    then have "rne (y / f32_ulp y) \<le> 16777216" by (rule rne_le_int)
    then have "(of_int (rne (y / f32_ulp y)) :: real) \<le> of_int 16777216" by simp
    then have "?r \<le> of_int 16777216 * f32_ulp y"
      using f32_ulp_pos [of y] by (intro mult_right_mono) simp_all
    also have "\<dots> = 2 powr (of_int E + 1)" unfolding split u p24 ..
    also have "\<dots> \<le> 2 powr 0" using E1 by (intro powr_mono) simp_all
    finally have le: "?r \<le> 1" by simp
    from le f32_max_pos have "\<not> f32_max < ?r" by simp
    moreover from nn f32_max_pos have "\<not> ?r < - f32_max" by simp
    ultimately have "f32_round y = Fin ?r" by (simp add: f32_round_def Let_def)
    with nn le show ?thesis by blast
  qed
qed

subsection \<open>C4: the sign of the decay parameter\<close>

lemma exp_underflow: "x \<le> - 150 \<Longrightarrow> exp x < 2 powr (- 150)" for x :: real
proof -
  assume a: "x \<le> - 150"
  have "ln (2::real) < 1" using ln_add_one_self_less_self [of 1] by simp
  then have "- 150 < - 150 * ln (2::real)" by simp
  with a have "x < - 150 * ln (2::real)" by simp
  then have "exp x < exp (- 150 * ln (2::real))" by simp
  also have "\<dots> = 2 powr (- 150)" by (simp add: powr_def)
  finally show ?thesis .
qed

lemma decay_A_elem:
  "decay_A al ! i = NInf \<or> (\<exists>r. decay_A al ! i = Fin r \<and> r \<le> 0)" if "i < length al"
  using that f32_round_nonneg [of "exp (al ! i)"] by (auto simp: decay_A_def)

lemma decay_A_elem_strict:
  "f32_less (decay_A al ! i) (Fin 0)" if "i < length al" "2 powr (- 149) \<le> exp (al ! i)"
  using that(1) f32_round_positive [OF that(2)] by (auto simp: decay_A_def)

lemma dA_range:
  assumes "0 < dt" and "a = NInf \<or> (\<exists>r. a = Fin r \<and> r \<le> 0)"
  shows "\<exists>f. dA (Fin dt) a = Fin f \<and> 0 \<le> f \<and> f \<le> 1"
proof -
  have "f32_mul (Fin dt) a = NInf \<or> (\<exists>q. f32_mul (Fin dt) a = Fin q \<and> q \<le> 0)"
  proof (cases "a = NInf")
    case True
    then show ?thesis using assms(1) by simp
  next
    case False
    with assms(2) obtain r where r: "a = Fin r" "r \<le> 0" by blast
    then have "dt * r \<le> 0" using assms(1) by (simp add: mult_le_0_iff)
    then show ?thesis using f32_round_nonpos [of "dt * r"] r by simp
  qed
  then show ?thesis
  proof
    assume "f32_mul (Fin dt) a = NInf"
    then show ?thesis by (simp add: dA_def)
  next
    assume "\<exists>q. f32_mul (Fin dt) a = Fin q \<and> q \<le> 0"
    then obtain q where q: "f32_mul (Fin dt) a = Fin q" "q \<le> 0" by blast
    then have "0 \<le> exp q" "exp q \<le> 1" by simp_all
    then have "\<exists>f. f32_round (exp q) = Fin f \<and> 0 \<le> f \<and> f \<le> 1" by (rule f32_round_le_one)
    then show ?thesis using q by (simp add: dA_def)
  qed
qed

lemma dA_positive:
  assumes "f32_mul dt a = Fin y" and "2 powr (- 149) \<le> exp y"
  shows "f32_less (Fin 0) (dA dt a)"
  using f32_round_positive [OF assms(2)] assms(1) by (auto simp: dA_def)

lemma ln_2_ge_half: "1 / 2 \<le> ln (2::real)"
proof -
  have "exp (1 / 2 :: real) ^ 2 = exp 1" by (simp add: exp_double [symmetric])
  also have "\<dots> \<le> 2 ^ 2" using exp_le by simp
  finally have "exp (1 / 2 :: real) \<le> 2" by (rule power2_le_imp_le) simp
  then show ?thesis using ln_ge_iff [of 2 "1 / 2"] by simp
qed

lemma exp_no_underflow: "- 74 \<le> x \<Longrightarrow> 2 powr (- 149) \<le> exp x" for x :: real
proof -
  assume a: "- 74 \<le> x"
  have "- 149 * ln (2::real) \<le> - 74" using ln_2_ge_half by simp
  with a have "- 149 * ln (2::real) \<le> x" by simp
  then have "exp (- 149 * ln (2::real)) \<le> exp x" by simp
  then show ?thesis by (simp add: powr_def)
qed

text \<open>
  C4, as stated: every element of \<open>A = -exp A_log\<close> is strictly negative for any
  finite \<open>A_log\<close>, and the factor \<open>exp (dt * A)\<close> lies in the interval from 0
  (excluded) to 1 for every strictly positive \<open>dt\<close>. In single precision it fails:
  for \<open>A_log = -150\<close> the exponential underflows and \<open>A\<close> is zero, which is not
  below zero; for \<open>dt = 10\<close> and the strictly negative \<open>A = -16\<close> the factor is zero.
\<close>

theorem decay_A_underflow_counterexample:
  "decay_A [- 150] = [Fin 0] \<and> \<not> f32_less (Fin 0) (Fin 0)
   \<and> f32_less (Fin (- 16)) (Fin 0) \<and> dA (Fin 10) (Fin (- 16)) = Fin 0"
proof -
  have "f32_round (exp (- 150)) = Fin 0"
    by (intro f32_round_underflow exp_underflow) simp_all
  moreover have "f32_round (exp (- 160)) = Fin 0"
    by (intro f32_round_underflow exp_underflow) simp_all
  ultimately show ?thesis by (simp add: decay_A_def dA_def f32_round_160)
qed

text \<open>
  C4, amended. For any finite \<open>A_log\<close>, every element of \<open>A\<close> is at most zero (or
  minus infinity), and strictly negative whenever \<open>exp A_log\<close> is at least the smallest
  positive single-precision value \<open>2 ^ (-149)\<close>; for every strictly positive finite
  \<open>dt\<close> the factor \<open>exp (dt * A)\<close> lies in the interval from 0 to 1, both included,
  and is strictly positive whenever the product is a finite \<open>y\<close> with \<open>exp y\<close> at
  least \<open>2 ^ (-149)\<close>.
\<close>

theorem decay_A_never_positive:
  "i < length al \<Longrightarrow> 0 < dt \<Longrightarrow>
     f32_le (decay_A al ! i) (Fin 0)
   \<and> (2 powr (- 149) \<le> exp (al ! i) \<longrightarrow> f32_less (decay_A al ! i) (Fin 0))
   \<and> f32_le (Fin 0) (dA (Fin dt) (decay_A al ! i))
   \<and> f32_le (dA (Fin dt) (decay_A al ! i)) (Fin 1)
   \<and> (f32_mul (Fin dt) (decay_A al ! i) = Fin y \<longrightarrow> 2 powr (- 149) \<le> exp y \<longrightarrow>
        f32_less (Fin 0) (dA (Fin dt) (decay_A al ! i)))"
proof (intro conjI impI)
  assume i: "i < length al" and dt: "0 < dt"
  note e = decay_A_elem [OF i]
  from e show "f32_le (decay_A al ! i) (Fin 0)" by (auto simp: f32_le_def)
  from dA_range [OF dt e] obtain f
    where f: "dA (Fin dt) (decay_A al ! i) = Fin f" "0 \<le> f" "f \<le> 1" by blast
  then show "f32_le (Fin 0) (dA (Fin dt) (decay_A al ! i))"
    and "f32_le (dA (Fin dt) (decay_A al ! i)) (Fin 1)"
    by (auto simp: f32_le_def)
next
  assume "i < length al" "2 powr (- 149) \<le> exp (al ! i)"
  then show "f32_less (decay_A al ! i) (Fin 0)" by (rule decay_A_elem_strict)
next
  assume "f32_mul (Fin dt) (decay_A al ! i) = Fin y" "2 powr (- 149) \<le> exp y"
  then show "f32_less (Fin 0) (dA (Fin dt) (decay_A al ! i))" by (rule dA_positive)
qed

text \<open>For \<open>A_log = 0\<close> and \<open>dt = 1\<close>: \<open>A = -1\<close> and the product is \<open>-1\<close>.\<close>

theorem decay_A_never_positive_witness:
  "(0::nat) < length [0 :: real] \<and> (0::real) < 1
   \<and> 2 powr (- 149) \<le> exp ([0 :: real] ! 0)
   \<and> f32_mul (Fin 1) (decay_A [0] ! 0) = Fin (- 1) \<and> 2 powr (- 149) \<le> exp (- 1 :: real)
   \<and> decay_A [0] ! 0 = Fin (- 1)
   \<and> f32_less (decay_A [0] ! 0) (Fin 0)
   \<and> f32_less (Fin 0) (dA (Fin 1) (decay_A [0] ! 0))
   \<and> f32_le (dA (Fin 1) (decay_A [0] ! 0)) (Fin 1)"
proof -
  have a: "decay_A [0] ! 0 = Fin (- 1)" by (simp add: decay_A_def f32_round_one)
  have h: "(0::nat) < length [0 :: real]" "(0::real) < 1"
    "2 powr (- 149) \<le> exp ([0 :: real] ! 0)"
    "f32_mul (Fin 1) (decay_A [0] ! 0) = Fin (- 1)" "2 powr (- 149) \<le> exp (- 1 :: real)"
    using exp_no_underflow [of 0] exp_no_underflow [of "- 1"]
    by (simp_all add: a f32_round_one)
  show ?thesis
    using a h decay_A_never_positive [OF h(1,2), of "- 1"] by blast
qed

subsection \<open>C5: the gating bias is the inverse softplus of the sampled timestep\<close>







text \<open>
  The same for the value the constructor stores: softplus of the stored bias is the
  sampled and floored timestep, as long as it stays below the threshold.
\<close>

lemma softplus_dt_bias_init:
  "dt_sample u dt_min dt_max dt_init_floor \<le> softplus_threshold \<Longrightarrow>
   softplus (inv_dt (dt_sample u dt_min dt_max dt_init_floor))
     = dt_sample u dt_min dt_max dt_init_floor"
  by (rule softplus_inv_dt [OF dt_sample_pos])

subsection \<open>The concrete layers are results of the constructor\<close>

lemma layer_default_init: "Mamba_init env1 (default_args 64) = Inr layer_default"
  by (simp add: layer_default_def Mamba_init_def mamba_object_def env1_def default_args_def Let_def)

lemma layer_default_fields:
  "layer_idx layer_default = None" "sequence_parallel layer_default = False"
  by (simp_all add: layer_default_def Mamba_init_def mamba_object_def env1_def default_args_def Let_def)

lemma layer0_init: "Mamba_init env1 args0 = Inr layer0"
  by (simp add: layer0_def args0_def Mamba_init_def mamba_object_def env1_def default_args_def Let_def)

lemma layer0_fields:
  "layer_idx layer0 = Some 0" "sequence_parallel layer0 = False"
  "d_inner_local layer0 = 128" "d_conv layer0 = 4" "d_state layer0 = 128"
  by (simp_all add: layer0_def args0_def Mamba_init_def mamba_object_def env1_def default_args_def Let_def)

lemma layer_tp2_init: "Mamba_init env2 args_tp2 = Inr layer_tp2"
  by (simp add: layer_tp2_def args_tp2_def Mamba_init_def mamba_object_def
      env2_def env1_def default_args_def Let_def)

lemma layer_small_init: "Mamba_init env1 args_small = Inr layer_small"
  by (simp add: layer_small_def args_small_def Mamba_init_def mamba_object_def env1_def default_args_def Let_def)

lemma layer_small_fields:
  "conv1d_weight layer_small = [[1, 1], [1, 1], [1, 1], [1, 1]]"
  "conv1d_bias layer_small = Some [0, 0, 0, 0]"
  by (simp_all add: layer_small_def args_small_def Mamba_init_def mamba_object_def env1_def
      default_args_def Let_def upt_rec)

lemma buffers0_eq:
  "buffers0 = (\<lparr>shape = [1, 128, 4], elems = replicate 512 0\<rparr>,
               \<lparr>shape = [1, 128, 128], elems = replicate 16384 0\<rparr>)"
  by (simp add: buffers0_def allocate_inference_cache_def layer0_fields torch_zeros_def)

subsection \<open>C3: shard widths\<close>

lemma Mamba_init_Inr:
  assumes "Mamba_init env args = Inr m"
  shows "m = mamba_object env args"
    and "arg_headdim args \<noteq> 0"
    and "arg_headdim args dvd arg_expand args * arg_d_model args"
    and "env_world_size env \<noteq> 0"
    and "env_world_size env dvd arg_expand args * arg_d_model args"
    and "env_world_size env dvd arg_ngroups args"
    and "env_world_size env dvd (arg_expand args * arg_d_model args) div arg_headdim args"
  using assms by (simp_all add: Mamba_init_def Let_def dvd_eq_mod_eq_0 split: if_splits)

text \<open>
  C3. Construction fails, with the error of a failed assertion or of a division by
  zero, unless the shard count divides the inner dimension, the group count and the head
  count and the head dimension divides the inner dimension. When construction succeeds,
  the inner dimension is \<open>expand * d_model\<close>, the head count times the head dimension
  is the inner dimension, and each of \<open>d_inner_local\<close>, \<open>ngroups_local\<close> and
  \<open>nheads_local\<close> times the shard count is the unsharded width.
\<close>

theorem Mamba_init_shards:
  "(\<not> (env_world_size env dvd arg_expand args * arg_d_model args
        \<and> env_world_size env dvd arg_ngroups args
        \<and> env_world_size env dvd (arg_expand args * arg_d_model args) div arg_headdim args
        \<and> arg_headdim args dvd arg_expand args * arg_d_model args)
     \<longrightarrow> Mamba_init env args = Inl AssertionError
         \<or> Mamba_init env args = Inl ZeroDivisionError)
   \<and> (\<forall>m. Mamba_init env args = Inr m \<longrightarrow>
         d_inner m = arg_expand args * arg_d_model args
       \<and> nheads m * headdim m = d_inner m
       \<and> d_inner_local m * env_world_size env = d_inner m
       \<and> ngroups_local m * env_world_size env = ngroups m
       \<and> nheads_local m * env_world_size env = nheads m)"
proof (intro conjI impI allI)
  assume "\<not> (env_world_size env dvd arg_expand args * arg_d_model args
        \<and> env_world_size env dvd arg_ngroups args
        \<and> env_world_size env dvd (arg_expand args * arg_d_model args) div arg_headdim args
        \<and> arg_headdim args dvd arg_expand args * arg_d_model args)"
  then show "Mamba_init env args = Inl AssertionError
         \<or> Mamba_init env args = Inl ZeroDivisionError"
    by (auto simp: Mamba_init_def Let_def dvd_eq_mod_eq_0)
next
  fix m assume ok: "Mamba_init env args = Inr m"
  note d = Mamba_init_Inr [OF ok]
  show "d_inner m = arg_expand args * arg_d_model args"
    by (simp add: d(1) mamba_object_def Let_def)
  show "nheads m * headdim m = d_inner m"
    using d(2,3) by (simp add: d(1) mamba_object_def Let_def)
  show "d_inner_local m * env_world_size env = d_inner m"
    using d(4,5) by (simp add: d(1) mamba_object_def Let_def)
  show "ngroups_local m * env_world_size env = ngroups m"
    using d(4,6) by (simp add: d(1) mamba_object_def Let_def)
  show "nheads_local m * env_world_size env = nheads m"
    using d(4,7) by (simp add: d(1) mamba_object_def Let_def)
qed

text \<open>
  With two shards, the default single group is rejected, and two groups give local
  widths 64, 1 and 1 for the inner width 128, 2 groups and 2 heads.
\<close>

theorem Mamba_init_shards_witness:
  "\<not> (env_world_size env2 dvd arg_expand (default_args 64) * arg_d_model (default_args 64)
       \<and> env_world_size env2 dvd arg_ngroups (default_args 64)
       \<and> env_world_size env2 dvd
            (arg_expand (default_args 64) * arg_d_model (default_args 64))
              div arg_headdim (default_args 64)
       \<and> arg_headdim (default_args 64) dvd
            arg_expand (default_args 64) * arg_d_model (default_args 64))
   \<and> Mamba_init env2 (default_args 64) = Inl AssertionError
   \<and> Mamba_init env2 args_tp2 = Inr layer_tp2
   \<and> d_inner layer_tp2 = 128 \<and> nheads layer_tp2 = 2 \<and> ngroups layer_tp2 = 2
   \<and> d_inner_local layer_tp2 * 2 = d_inner layer_tp2
   \<and> ngroups_local layer_tp2 * 2 = ngroups layer_tp2
   \<and> nheads_local layer_tp2 * 2 = nheads layer_tp2"
proof -
  have nd: "\<not> (env_world_size env2 dvd arg_expand (default_args 64) * arg_d_model (default_args 64)
       \<and> env_world_size env2 dvd arg_ngroups (default_args 64)
       \<and> env_world_size env2 dvd
            (arg_expand (default_args 64) * arg_d_model (default_args 64))
              div arg_headdim (default_args 64)
       \<and> arg_headdim (default_args 64) dvd
            arg_expand (default_args 64) * arg_d_model (default_args 64))"
    by (simp add: env2_def env1_def default_args_def)
  have nz: "Mamba_init env2 (default_args 64) \<noteq> Inl ZeroDivisionError"
    by (simp add: Mamba_init_def env2_def env1_def default_args_def Let_def)
  have ws: "env_world_size env2 = 2" "arg_expand args_tp2 * arg_d_model args_tp2 = 128"
    by (simp_all add: env2_def env1_def args_tp2_def default_args_def)
  have f: "nheads layer_tp2 = 2" "ngroups layer_tp2 = 2"
    by (simp_all add: layer_tp2_def args_tp2_def Mamba_init_def mamba_object_def
        env2_def env1_def default_args_def Let_def)
  show ?thesis
    using nd nz ws f layer_tp2_init
      Mamba_init_shards [of env2 "default_args 64"] Mamba_init_shards [of env2 args_tp2]
    by simp
qed

subsection \<open>C1: the reference scan\<close>

lemma scan_ref_loop_state:
  "scan_ref_loop C' L is (x, ys, ls) = (x', ys', ls') \<Longrightarrow>
   x' = x \<and> (ls' = ls \<or> ls' = Some x)"
proof (induction "is" arbitrary: ys ls)
  case Nil
  then show ?case by simp
next
  case (Cons i "is")
  then show ?case by (auto simp: Let_def split: if_splits)
qed

text \<open>Whatever the inputs, a last state that the reference scan returns is all zero.\<close>

lemma selective_scan_ref_last_state_zero:
  assumes "selective_scan_ref u delta A' B' C' D' z db sp rl = Inr (out, Some st)"
  shows "\<forall>sb \<in> set st. \<forall>sd \<in> set sb. \<forall>v \<in> set sd. v = 0"
proof -
  let ?x0 = "replicate (case u of [] \<Rightarrow> 0 | u0 # _ \<Rightarrow> length u0)
               (replicate (length A')
                  (replicate (case A' of [] \<Rightarrow> 0 | a0 # _ \<Rightarrow> length a0) (0::real)))"
  obtain x ys ls
    where l: "scan_ref_loop C' (length u) [0..<length u] (?x0, [], None) = (x, ys, ls)"
    by (cases "scan_ref_loop C' (length u) [0..<length u] (?x0, [], None)") auto
  from scan_ref_loop_state [OF l] have "ls = None \<or> ls = Some ?x0" by simp
  moreover from assms l have "ls = Some st"
    by (auto simp: selective_scan_ref_def Let_def split: if_splits)
  ultimately have "st = ?x0" by simp
  then show ?thesis by auto
qed

text \<open>
  C1. The claim is that \<open>selective_scan_ref\<close> with \<open>delta_softplus = True\<close> computes
  the recurrence: the state after each timestep is
  \<open>exp (dt_eff * A) * state + dt_eff * B_t * u_t\<close>, the output is
  \<open>C_t \<cdot> state_t + D * u_t\<close>, and the returned last state is the state after the final
  timestep. The code does not: on the sequence of one timestep with \<open>u = 1\<close>,
  \<open>delta = 0\<close>, \<open>delta_bias = 0\<close>, \<open>A = -1\<close>, \<open>B = C = 1\<close> and \<open>D = 0\<close> it returns
  the output 0 and the last state 0, where the recurrence gives \<open>ln 2\<close> for both.
\<close>

theorem selective_scan_ref_no_recurrence:
  "selective_scan_ref [[[1]]] [[[0]]] [[- 1]] [[[1]]] [[[1]]] (Some [0]) None (Some [0])
      True True = Inr ([[[0]]], Some [[[0]]])
   \<and> ssm_scan [- 1] 0 [0] [(ssm_dt_eff 0 0, 1, [1], [1], None)] = ([ln 2], [ln 2])
   \<and> ln (2::real) \<noteq> 0"
  by (simp add: selective_scan_ref_def einsum_bdn_bn_def Let_def ssm_state_step_def
      ssm_output_def ssm_dt_eff_def softplus_def softplus_threshold_def)

subsection \<open>The attributes that the constructor never assigns\<close>

lemma getattr_missing:
  "getattr self ''x_proj'' = Inl (AttributeError ''x_proj'')"
  "getattr self ''dt_proj'' = Inl (AttributeError ''dt_proj'')"
  "getattr self ''dt_rank'' = Inl (AttributeError ''dt_rank'')"
  by (simp_all add: getattr_def init_attrs_def)

subsection \<open>C8: the cache lookup\<close>

lemma get_states_unset:
  "layer_idx self = None \<Longrightarrow> get_states_from_cache self ip b i = (Inl AssertionError, ip)"
  by (simp add: get_states_from_cache_def)

lemma get_states_miss:
  "layer_idx self = Some k \<Longrightarrow> key_value_memory_dict ip k = None \<Longrightarrow>
   \<exists>e. get_states_from_cache self ip b i = (Inl e, ip)"
  by (simp add: get_states_from_cache_def getattr_missing split: sum.splits)

lemma get_states_miss_attr:
  "layer_idx self = Some k \<Longrightarrow> key_value_memory_dict ip k = None \<Longrightarrow>
   0 \<le> b \<Longrightarrow> 0 \<le> d_inner_local self \<Longrightarrow> 0 \<le> d_conv self \<Longrightarrow>
   get_states_from_cache self ip b i = (Inl (AttributeError ''dt_proj''), ip)"
  by (simp add: get_states_from_cache_def getattr_missing torch_zeros_def)

text \<open>
  The other parts of the contract hold: an existing entry is returned as it is, the
  reinitialise flag zeroes both buffers, in the dictionary too, and a layer without
  identity is refused.
\<close>

lemma get_states_hit:
  "layer_idx self = Some k \<Longrightarrow> key_value_memory_dict ip k = Some (c, s) \<Longrightarrow>
   get_states_from_cache self ip b False = (Inr (c, s), ip)"
  by (simp add: get_states_from_cache_def)

lemma get_states_reinit:
  "layer_idx self = Some k \<Longrightarrow> key_value_memory_dict ip k = Some (c, s) \<Longrightarrow>
   get_states_from_cache self ip b True =
     (Inr (tensor_zero c, tensor_zero s),
      ip \<lparr> key_value_memory_dict :=
             (key_value_memory_dict ip)(k \<mapsto> (tensor_zero c, tensor_zero s)) \<rparr>)"
  by (simp add: get_states_from_cache_def)

lemma allocate_inference_cache_no_dtype:
  "0 \<le> b \<Longrightarrow> 0 \<le> d_inner_local self \<Longrightarrow> 0 \<le> d_conv self \<Longrightarrow>
   allocate_inference_cache self b n None = Inl (AttributeError ''dt_proj'')"
  by (simp add: allocate_inference_cache_def getattr_missing torch_zeros_def)

text \<open>
  C8. The claim is that the first request for a layer allocates zeroed buffers of shapes
  \<open>(batch, d_inner_local, d_conv)\<close> and \<open>(batch, d_inner_local, d_state)\<close> and stores
  them in the session mapping. The code does not: for the layer with index 0 and an
  empty session, the request raises the attribute error for \<open>dt_proj\<close> and the session
  mapping stays empty.
\<close>

theorem get_states_first_request_raises:
  "get_states_from_cache layer0 session0 1 False = (Inl (AttributeError ''dt_proj''), session0)
   \<and> key_value_memory_dict session0 0 = None"
  by (simp add: get_states_miss_attr layer0_fields session0_def)

subsection \<open>C9: single-step decoding and its guards\<close>

text \<open>No call of \<open>step\<close> returns an output.\<close>

lemma step_raises: "\<exists>e. fst (step self K h c s) = Inl e"
  by (simp add: step_def getattr_missing split: list.splits prod.splits sum.splits)

text \<open>
  The two guards hold: \<open>step\<close> refuses an input whose sequence length is not 1, and
  \<open>forward\<close> refuses an inference session when sequence parallelism is on.
\<close>

lemma step_single_token:
  "shape h = l # sh \<Longrightarrow> l \<noteq> 1 \<Longrightarrow> step self K h c s = (Inl AssertionError, c, s)"
  by (simp add: step_def)

lemma forward_sequence_parallel:
  "shape h = [l, b, dm] \<Longrightarrow> sequence_parallel self \<Longrightarrow>
   forward self K h (Some ip) = (Inl AssertionError, Some ip)"
  by (simp add: forward_def)

lemma step_attr:
  "shape h = 1 # sh \<Longrightarrow> step_conv K self h c = (Inr (x, z), c') \<Longrightarrow>
   step self K h c s = (Inl (AttributeError ''x_proj''), c', s)"
  by (simp add: step_def getattr_missing)

lemma step_state_unchanged: "snd (snd (step self K h c s)) = s"
  by (simp add: step_def getattr_missing split: list.splits prod.splits sum.splits)

lemma step_error:
  "shape h = 1 # sh \<Longrightarrow>
   fst (step self K h c s)
     = (case fst (step_conv K self h c) of
          Inl e \<Rightarrow> Inl e | Inr xz \<Rightarrow> Inl (AttributeError ''x_proj''))"
  by (simp add: step_def getattr_missing split: prod.splits sum.splits)

text \<open>
  C9. The claim is that stepwise decoding applies the recurrence for exactly one
  timestep, and that it raises on a sequence length other than 1, as \<open>forward\<close> does on
  an inference session under sequence parallelism. The two guards are as claimed (the
  lemmas \<open>step_single_token\<close> and \<open>forward_sequence_parallel\<close>), but the recurrence is
  never applied: for every layer, input and pair of buffers, and whatever the tensor
  computations of lines 358 to 381 return or raise, \<open>step\<close> raises and leaves the state
  buffer as it was.
\<close>

theorem step_never_applies_recurrence:
  "(\<exists>e. fst (step self K h c s) = Inl e) \<and> snd (snd (step self K h c s)) = s"
  using step_raises [of self K h c s] step_state_unchanged [of self K h c s] by simp

subsection \<open>C7 and C10: the forward pass with an inference session\<close>

lemma forward_main_states_raises: "\<exists>e. fst (forward_main self K h (Some cs)) = Inl e"
  by (cases cs) (simp add: forward_main_def split: sum.splits prod.splits)

lemma forward_session_raises: "\<exists>e. fst (forward self K h (Some ip)) = Inl e"
proof (cases "\<exists>l b dm. shape h = [l, b, dm]")
  case False
  then have "forward self K h (Some ip) = (Inl ValueError, Some ip)"
    by (auto simp: forward_def split: list.splits)
  then show ?thesis by simp
next
  case True
  then obtain l b dm where sh: "shape h = [l, b, dm]" by blast
  show ?thesis
  proof (cases "sequence_parallel self")
    case True
    then show ?thesis using sh by (simp add: forward_def)
  next
    case sp: False
    obtain r ip' where g: "get_states_from_cache self ip (int b) False = (r, ip')"
      by (cases "get_states_from_cache self ip (int b) False")
    show ?thesis
    proof (cases r)
      case (Inl e)
      then show ?thesis using sh sp g by (simp add: forward_def)
    next
      case (Inr cs)
      obtain c s where cs: "cs = (c, s)" by (cases cs)
      show ?thesis
      proof (cases "seqlen_offset ip' > 0")
        case True
        then show ?thesis
          using sh sp g Inr cs step_raises [of self K h c s]
          by (auto simp: forward_def split: prod.splits)
      next
        case False
        then show ?thesis
          using sh sp g Inr cs forward_main_states_raises [of self K h "(c, s)"]
          by (auto simp: forward_def split: prod.splits option.splits)
      qed
    qed
  qed
qed

lemma forward_first_call:
  "\<not> sequence_parallel self \<Longrightarrow> layer_idx self = Some k \<Longrightarrow>
   key_value_memory_dict ip k = None \<Longrightarrow> shape h = [l, b, dm] \<Longrightarrow>
   0 \<le> d_inner_local self \<Longrightarrow> 0 \<le> d_conv self \<Longrightarrow>
   forward self K h (Some ip) = (Inl (AttributeError ''dt_proj''), Some ip)"
  by (simp add: forward_def get_states_miss_attr)

text \<open>
  C7. The claim is that a forward (prefill) pass with an inference cache writes the last
  \<open>d_conv\<close> positions of the convolution input into the convolution-state buffer of the
  cache. The code does not. On a sequence of three tokens, with an empty session the
  pass raises the attribute error for \<open>dt_proj\<close> and the session stays empty; with a
  session that already holds the zeroed buffers of layer 0, the pass raises at line 223,
  where \<open>x\<close> has no value yet, and the buffers stay zero.
\<close>

theorem forward_prefill_writes_nothing:
  "forward layer0 kernels0 (hidden1 3) (Some session0)
     = (Inl (AttributeError ''dt_proj''), Some session0)
   \<and> forward layer0 kernels0 (hidden1 3) (Some session_alloc)
     = (Inl (UnboundLocalError ''x''), Some session_alloc)
   \<and> key_value_memory_dict session_alloc 0
     = Some (\<lparr>shape = [1, 128, 4], elems = replicate 512 0\<rparr>,
             \<lparr>shape = [1, 128, 128], elems = replicate 16384 0\<rparr>)"
  by (simp add: forward_def hidden1_def layer0_fields get_states_miss_attr get_states_hit
      session_alloc_def session0_def buffers0_eq forward_main_def kernels0_def store_states_def)

text \<open>
  C10, as stated: every forward call that supplies an inference session raises an
  attribute error. It fails on the layer that the constructor returns for its default
  arguments, which has no layer index: the call raises the assertion error of the
  cache lookup, not an attribute error.
\<close>

theorem forward_session_default_layer_counterexample:
  "Mamba_init env1 (default_args 64) = Inr layer_default
   \<and> forward layer_default kernels0 (hidden1 1) (Some session0)
       = (Inl AssertionError, Some session0)
   \<and> AssertionError \<notin> {AttributeError ''x_proj'', AttributeError ''dt_proj'',
                          AttributeError ''dt_rank''}"
  by (simp add: layer_default_init forward_def hidden1_def layer_default_fields
      get_states_unset)

text \<open>
  C10, amended. The constructor assigns none of \<open>x_proj\<close>, \<open>dt_proj\<close> and \<open>dt_rank\<close>,
  and every forward call that supplies an inference session raises before producing any
  output. The first, cache-creating call raises the attribute error for \<open>dt_proj\<close> when
  sequence parallelism is off, the layer index is set and the sizes are not negative. A
  single-step decode of one token raises the error of its projection and convolution
  update (lines 358 to 381) when that raises, and the attribute error for \<open>x_proj\<close>
  otherwise.
\<close>

theorem forward_session_always_raises:
  "set [''x_proj'', ''dt_proj'', ''dt_rank''] \<inter> set (init_attrs self) = {}
   \<and> (\<exists>e. fst (forward self K h (Some ip)) = Inl e)
   \<and> (\<not> sequence_parallel self \<longrightarrow> layer_idx self = Some k \<longrightarrow>
        key_value_memory_dict ip k = None \<longrightarrow> shape h = [l, b, dm] \<longrightarrow>
        0 \<le> d_inner_local self \<longrightarrow> 0 \<le> d_conv self \<longrightarrow>
        forward self K h (Some ip) = (Inl (AttributeError ''dt_proj''), Some ip))
   \<and> (shape h = 1 # sh \<longrightarrow>
        fst (step self K h c s)
          = (case fst (step_conv K self h c) of
               Inl e \<Rightarrow> Inl e | Inr xz \<Rightarrow> Inl (AttributeError ''x_proj'')))"
proof (intro conjI impI)
  show "set [''x_proj'', ''dt_proj'', ''dt_rank''] \<inter> set (init_attrs self) = {}"
    by (simp add: init_attrs_def)
  show "\<exists>e. fst (forward self K h (Some ip)) = Inl e"
    by (rule forward_session_raises)
next
  assume "\<not> sequence_parallel self" "layer_idx self = Some k"
    "key_value_memory_dict ip k = None" "shape h = [l, b, dm]"
    "0 \<le> d_inner_local self" "0 \<le> d_conv self"
  then show "forward self K h (Some ip) = (Inl (AttributeError ''dt_proj''), Some ip)"
    by (rule forward_first_call)
next
  assume "shape h = 1 # sh"
  then show "fst (step self K h c s)
          = (case fst (step_conv K self h c) of
               Inl e \<Rightarrow> Inl e | Inr xz \<Rightarrow> Inl (AttributeError ''x_proj''))"
    by (rule step_error)
qed

text \<open>
  Layer 0 with an empty session, and a decode of one token with the buffers of
  \<open>allocate_inference_cache\<close>, where line 369 raises.
\<close>

theorem forward_session_always_raises_witness:
  "\<not> sequence_parallel layer0 \<and> layer_idx layer0 = Some 0
   \<and> key_value_memory_dict session0 0 = None \<and> shape (hidden1 1) = [1, 1, 64]
   \<and> 0 \<le> d_inner_local layer0 \<and> 0 \<le> d_conv layer0
   \<and> shape (hidden1 1) = 1 # [1, 64]
   \<and> forward layer0 kernels0 (hidden1 1) (Some session0)
       = (Inl (AttributeError ''dt_proj''), Some session0)
   \<and> fst (step layer0 kernels0 (hidden1 1) (fst buffers0) (snd buffers0))
       = Inl RuntimeError"
proof -
  have h: "\<not> sequence_parallel layer0" "layer_idx layer0 = Some 0"
    "key_value_memory_dict session0 0 = None" "shape (hidden1 1) = [1, 1, 64]"
    "0 \<le> d_inner_local layer0" "0 \<le> d_conv layer0"
    "shape (hidden1 1) = 1 # [1, 64]"
    by (simp_all add: layer0_fields session0_def hidden1_def)
  have k: "fst (step_conv kernels0 layer0 (hidden1 1) (fst buffers0)) = Inl RuntimeError"
    by (simp add: kernels0_def)
  show ?thesis
    using h k forward_session_always_raises [of layer0 kernels0 "hidden1 1" session0 0 1 1 64
        "[1, 64]" "fst buffers0" "snd buffers0"]
    by simp
qed

subsection \<open>C6: the convolution stage is causal\<close>

lemma pad_both_nth:
  "n < p + length xs \<Longrightarrow> pad_both p xs ! n = (if n < p then 0 else xs ! (n - p))"
  by (auto simp: pad_both_def nth_append)

lemma pad_both_agree:
  assumes "t < length xs" "t < length ys" "j \<le> p" "\<forall>i\<le>t. xs ! i = ys ! i"
  shows "pad_both p xs ! (t + j) = pad_both p ys ! (t + j)"
proof -
  have a: "t + j < p + length xs" "t + j < p + length ys" using assms by simp_all
  have "t + j - p \<le> t" using assms(3) by simp
  with assms(4) have "xs ! (t + j - p) = ys ! (t + j - p)" by blast
  then show ?thesis by (simp add: pad_both_nth [OF a(1)] pad_both_nth [OF a(2)])
qed

lemma conv1d_channel_nth:
  assumes "t < length xs"
  shows "conv1d_channel w b xs ! t
           = (case b of None \<Rightarrow> 0 | Some c \<Rightarrow> c)
             + (\<Sum>j\<leftarrow>[0..<length w]. w ! j * pad_both (length w - 1) xs ! (t + j))"
  using assms by (simp add: conv1d_channel_def Let_def pad_both_def)

lemma conv1d_channel_causal:
  assumes "t < length xs" "t < length ys" "\<forall>i\<le>t. xs ! i = ys ! i"
  shows "conv1d_channel w b xs ! t = conv1d_channel w b ys ! t"
proof -
  have "\<And>j. j \<in> set [0..<length w] \<Longrightarrow>
          pad_both (length w - 1) xs ! (t + j) = pad_both (length w - 1) ys ! (t + j)"
  proof -
    fix j assume "j \<in> set [0..<length w]"
    then have "j \<le> length w - 1" by auto
    then show "pad_both (length w - 1) xs ! (t + j) = pad_both (length w - 1) ys ! (t + j)"
      using assms by (intro pad_both_agree)
  qed
  then have "map (\<lambda>j. w ! j * pad_both (length w - 1) xs ! (t + j)) [0..<length w]
      = map (\<lambda>j. w ! j * pad_both (length w - 1) ys ! (t + j)) [0..<length w]"
    by (intro map_cong refl) simp
  then show ?thesis
    by (simp only: conv1d_channel_nth [OF assms(1)] conv1d_channel_nth [OF assms(2)])
qed

lemma conv1d_channel_length: "length xs \<le> length (conv1d_channel w b xs)"
  by (simp add: conv1d_channel_def Let_def pad_both_def)

lemma conv_act_channel_nth:
  "t < length xs \<Longrightarrow> conv_act_channel w b xs ! t = silu (conv1d_channel w b xs ! t)"
  using conv1d_channel_length [of xs w b] by (simp add: conv_act_channel_def)

lemma conv_act_nth:
  assumes "conv_act self X = Inr out" "b < length X" "c < length (conv1d_weight self)"
  shows "out ! b ! c = conv_act_channel (conv1d_weight self ! c)
                         (map_option (\<lambda>bias. bias ! c) (conv1d_bias self)) (X ! b ! c)"
proof -
  from assms(1,2) have len: "length (X ! b) = length (conv1d_weight self)"
    by (auto simp: conv_act_def split: if_splits)
  from assms(1) have "out = map (\<lambda>xb. map (\<lambda>c. conv_act_channel (conv1d_weight self ! c)
                                     (map_option (\<lambda>bias. bias ! c) (conv1d_bias self))
                                     (xb ! c)) [0..<length xb]) X"
    by (auto simp: conv_act_def split: if_splits)
  then show ?thesis using assms(2,3) len by simp
qed

lemma upt_4: "[0..<4] = [0, 1, 2, Suc 2]"
  by (simp add: upt_rec)

text \<open>
  C6. For two inputs of the convolution stage that agree, in a batch entry and a
  channel, at all positions up to \<open>t\<close>, the output of convolution and SiLU at position
  \<open>t\<close> of that batch entry and channel is the same: nothing after \<open>t\<close> is read.
\<close>

theorem conv_act_causal:
  assumes "conv_act self X = Inr ox" and "conv_act self Y = Inr oy"
    and "b < length X" and "b < length Y" and "c < length (conv1d_weight self)"
    and "t < length (X ! b ! c)" and "t < length (Y ! b ! c)"
    and "\<forall>i\<le>t. X ! b ! c ! i = Y ! b ! c ! i"
  shows "ox ! b ! c ! t = oy ! b ! c ! t"
proof -
  have "conv1d_channel w bs (X ! b ! c) ! t = conv1d_channel w bs (Y ! b ! c) ! t" for w bs
    using assms(6,7,8) by (rule conv1d_channel_causal)
  then show ?thesis
    using assms(6,7)
    by (simp add: conv_act_nth [OF assms(1,3,5)] conv_act_nth [OF assms(2,4,5)]
        conv_act_channel_nth)
qed

text \<open>
  With two taps of weight 1 and no bias, the inputs \<open>1, 2, 3\<close> and \<open>1, 2, 7\<close> give
  the same output at position 1 and different sums at position 2.
\<close>

theorem conv_act_causal_witness:
  "conv_act layer_small xBC_a
     = Inr [[[silu 1, silu 3, silu 5], [silu 0, silu 0, silu 0], [silu 0, silu 0, silu 0],
             [silu 0, silu 0, silu 0]]]
   \<and> conv_act layer_small xBC_b
     = Inr [[[silu 1, silu 3, silu 9], [silu 0, silu 0, silu 0], [silu 0, silu 0, silu 0],
             [silu 0, silu 0, silu 0]]]
   \<and> 0 < length xBC_a \<and> 0 < length xBC_b \<and> 0 < length (conv1d_weight layer_small)
   \<and> 1 < length (xBC_a ! 0 ! 0) \<and> 1 < length (xBC_b ! 0 ! 0)
   \<and> xBC_a ! 0 ! 0 ! 0 = xBC_b ! 0 ! 0 ! 0 \<and> xBC_a ! 0 ! 0 ! 1 = xBC_b ! 0 ! 0 ! 1
   \<and> xBC_a ! 0 ! 0 ! 2 \<noteq> xBC_b ! 0 ! 0 ! 2
   \<and> [[[silu 1, silu 3, silu 5], [silu 0, silu 0, silu 0], [silu 0, silu 0, silu 0],
         [silu 0, silu 0, silu 0]]] ! 0 ! 0 ! 1
     = [[[silu 1, silu 3, silu 9], [silu 0, silu 0, silu 0], [silu 0, silu 0, silu 0],
         [silu 0, silu 0, silu 0 :: real]]] ! 0 ! 0 ! 1"
proof -
  have a: "conv_act layer_small xBC_a
     = Inr [[[silu 1, silu 3, silu 5], [silu 0, silu 0, silu 0], [silu 0, silu 0, silu 0],
             [silu 0, silu 0, silu 0]]]"
    by (simp add: xBC_a_def conv_act_def layer_small_fields conv_act_channel_def
        conv1d_channel_def pad_both_def Let_def upt_4)
  have b: "conv_act layer_small xBC_b
     = Inr [[[silu 1, silu 3, silu 9], [silu 0, silu 0, silu 0], [silu 0, silu 0, silu 0],
             [silu 0, silu 0, silu 0]]]"
    by (simp add: xBC_b_def conv_act_def layer_small_fields conv_act_channel_def
        conv1d_channel_def pad_both_def Let_def upt_4)
  have l: "0 < length xBC_a" "0 < length xBC_b" "0 < length (conv1d_weight layer_small)"
    "1 < length (xBC_a ! 0 ! 0)" "1 < length (xBC_b ! 0 ! 0)"
    by (simp_all add: xBC_a_def xBC_b_def layer_small_fields)
  have e: "xBC_a ! 0 ! 0 ! 0 = xBC_b ! 0 ! 0 ! 0" "xBC_a ! 0 ! 0 ! 1 = xBC_b ! 0 ! 0 ! 1"
    "xBC_a ! 0 ! 0 ! 2 \<noteq> xBC_b ! 0 ! 0 ! 2"
    by (simp_all add: xBC_a_def xBC_b_def)
  have q: "\<forall>i\<le>1. xBC_a ! 0 ! 0 ! i = xBC_b ! 0 ! 0 ! i"
    using e(1,2) by (auto simp: le_Suc_eq)
  show ?thesis
    using a b l e conv_act_causal [OF a b l(1,2,3,4,5) q] by blast
qed

subsection \<open>C2: the chunked scan is the sequential recurrence\<close>

lemma seg_decay_Suc:
  "i \<le> j \<Longrightarrow> seg_decay a c i (Suc j) = seg_decay a c i j * exp (fst (c ! j) * a)"
  by (simp add: seg_decay_def exp_add)

lemma seg_decay_empty: "seg_decay a c j j = 1"
  by (simp add: seg_decay_def)

lemma ssm_state_step_cong:
  "(\<And>n. n < length A' \<Longrightarrow> s ! n = s' ! n) \<Longrightarrow> ssm_state_step A' s inp = ssm_state_step A' s' inp"
  by (simp add: ssm_state_step_def split: prod.splits)

lemma chunk_state_0_nth: "n < length A' \<Longrightarrow> chunk_state A' s c 0 ! n = s ! n"
  by (simp add: chunk_state_def seg_decay_empty)

lemma chunk_state_Suc:
  "chunk_state A' s c (Suc j) = ssm_state_step A' (chunk_state A' s c j) (c ! j)"
proof -
  obtain dt x Bv Cv g where cj: "c ! j = (dt, x, Bv, Cv, g)" by (cases "c ! j") 
  have "(\<Sum>i\<leftarrow>[0..<j]. case c ! i of (dt, x, Bv, Cv, g) \<Rightarrow>
               seg_decay a c (Suc i) (Suc j) * (dt * Bv ! n * x))
      = exp (dt * a) * (\<Sum>i\<leftarrow>[0..<j]. case c ! i of (dt, x, Bv, Cv, g) \<Rightarrow>
               seg_decay a c (Suc i) j * (dt * Bv ! n * x))" for a n
  proof -
    have "map (\<lambda>i. case c ! i of (dt, x, Bv, Cv, g) \<Rightarrow>
               seg_decay a c (Suc i) (Suc j) * (dt * Bv ! n * x)) [0..<j]
        = map (\<lambda>i. exp (dt * a) * (case c ! i of (dt, x, Bv, Cv, g) \<Rightarrow>
               seg_decay a c (Suc i) j * (dt * Bv ! n * x))) [0..<j]"
      by (intro map_cong refl) (auto simp: seg_decay_Suc cj split: prod.splits)
    then have "(\<Sum>i\<leftarrow>[0..<j]. case c ! i of (dt, x, Bv, Cv, g) \<Rightarrow>
               seg_decay a c (Suc i) (Suc j) * (dt * Bv ! n * x))
        = (\<Sum>i\<leftarrow>[0..<j]. exp (dt * a) * (case c ! i of (dt, x, Bv, Cv, g) \<Rightarrow>
               seg_decay a c (Suc i) j * (dt * Bv ! n * x)))"
      by (rule arg_cong)
    also have "\<dots> = exp (dt * a) * (\<Sum>i\<leftarrow>[0..<j]. case c ! i of (dt, x, Bv, Cv, g) \<Rightarrow>
               seg_decay a c (Suc i) j * (dt * Bv ! n * x))"
      by (rule sum_list_const_mult)
    finally show ?thesis .
  qed
  then show ?thesis
    by (simp add: chunk_state_def ssm_state_step_def cj seg_decay_Suc seg_decay_empty
        algebra_simps)
qed

lemma chunk_state_foldl:
  "j \<le> length c \<Longrightarrow> 0 < j \<Longrightarrow> chunk_state A' s c j = foldl (ssm_state_step A') s (take j c)"
proof (induction j)
  case 0
  then show ?case by simp
next
  case (Suc j)
  show ?case
  proof (cases j)
    case 0
    have "chunk_state A' s c (Suc 0) = ssm_state_step A' s (c ! 0)"
      unfolding chunk_state_Suc by (rule ssm_state_step_cong) (rule chunk_state_0_nth)
    moreover have "take (Suc 0) c = [c ! 0]"
      using Suc.prems by (cases c) simp_all
    ultimately show ?thesis using 0 by simp
  next
    case (Suc k)
    with Suc.IH Suc.prems
    have "chunk_state A' s c j = foldl (ssm_state_step A') s (take j c)" by simp
    moreover have "take (Suc j) c = take j c @ [c ! j]"
      using Suc.prems by (simp add: take_Suc_conv_app_nth)
    ultimately show ?thesis by (simp add: chunk_state_Suc)
  qed
qed

lemma ssm_scan_foldl:
  "ssm_scan A' D' s c =
     (map (\<lambda>j. ssm_output A' D' (foldl (ssm_state_step A') s (take (Suc j) c)) (c ! j))
        [0..<length c],
      foldl (ssm_state_step A') s c)"
proof (induction c arbitrary: s)
  case Nil
  then show ?case by simp
next
  case (Cons inp rest)
  have "[0..<length (inp # rest)] = 0 # map Suc [0..<length rest]"
    by (simp add: upt_conv_Cons map_Suc_upt del: upt_Suc)
  then show ?case
    by (simp add: Cons.IH Let_def comp_def del: upt_Suc)
qed

lemma chunk_scan_eq_ssm_scan: "chunk_scan A' D' s c = ssm_scan A' D' s c"
proof (cases "c = []")
  case True
  then show ?thesis by (simp add: chunk_scan_def)
next
  case False
  have "map (\<lambda>j. ssm_output A' D' (chunk_state A' s c (Suc j)) (c ! j)) [0..<length c]
      = map (\<lambda>j. ssm_output A' D' (foldl (ssm_state_step A') s (take (Suc j) c)) (c ! j))
          [0..<length c]"
    by (intro map_cong refl) (simp add: chunk_state_foldl)
  moreover have "chunk_state A' s c (length c) = foldl (ssm_state_step A') s c"
    using False by (simp add: chunk_state_foldl)
  ultimately show ?thesis using False by (simp add: chunk_scan_def ssm_scan_foldl)
qed

lemma ssm_scan_append:
  "ssm_scan A' D' s (xs @ ys) =
     (let (o1, s1) = ssm_scan A' D' s xs; (o2, s2) = ssm_scan A' D' s1 ys in (o1 @ o2, s2))"
  by (induction xs arbitrary: s) (simp_all add: Let_def split: prod.splits)

lemma chunk_carry_chunks:
  "0 < n \<Longrightarrow> chunk_carry A' D' s (chunks n ts) = ssm_scan A' D' s ts"
proof (induction n ts arbitrary: s rule: chunks.induct)
  case (1 n xs)
  show ?case
  proof (cases "xs = []")
    case True
    then show ?thesis by (simp add: chunks.simps)
  next
    case False
    with 1 have IH: "chunk_carry A' D' s' (chunks n (drop n xs)) = ssm_scan A' D' s' (drop n xs)"
      for s' by simp
    have "ssm_scan A' D' s xs = ssm_scan A' D' s (take n xs @ drop n xs)" by simp
    also have "\<dots> = (let (o1, s1) = ssm_scan A' D' s (take n xs);
                       (o2, s2) = ssm_scan A' D' s1 (drop n xs) in (o1 @ o2, s2))"
      by (rule ssm_scan_append)
    finally show ?thesis
      using False 1(2) by (simp add: chunks.simps [of n xs] chunk_scan_eq_ssm_scan IH)
  qed
qed

text \<open>
  C2. For every input sequence, the chunked scan gives the same outputs and the same
  final state for any two positive chunk sizes (so for one chunk and for several), and
  both are those of the sequential recurrence started from the zero state.
\<close>

theorem chunked_scan_any_chunk_size:
  "0 < cs \<Longrightarrow> 0 < cs' \<Longrightarrow>
   mamba_chunk_scan A' D' cs inps = mamba_chunk_scan A' D' cs' inps
   \<and> mamba_chunk_scan A' D' cs inps = ssm_scan A' D' (replicate (length A') 0) inps"
  by (simp add: mamba_chunk_scan_def chunk_carry_chunks)

text \<open>Six timesteps as one chunk of six and as three chunks of two.\<close>

theorem chunked_scan_any_chunk_size_witness:
  "(0::nat) < 6 \<and> (0::nat) < 2
   \<and> length (chunks 6 inps6) = 1 \<and> length (chunks 2 inps6) = 3
   \<and> mamba_chunk_scan [- 1] 1 6 inps6 = mamba_chunk_scan [- 1] 1 2 inps6
   \<and> mamba_chunk_scan [- 1] 1 6 inps6 = ssm_scan [- 1] 1 [0] inps6"
proof -
  have p: "(0::nat) < 6" "(0::nat) < 2" by simp_all
  have n: "length (chunks 6 inps6) = 1" "length (chunks 2 inps6) = 3"
    by (simp_all add: inps6_def chunks.simps)
  have r: "replicate (length [- 1 :: real]) (0::real) = [0]" by simp
  show ?thesis
    using p n chunked_scan_any_chunk_size [OF p, of "[- 1]" 1 inps6]
    unfolding r by blast
qed

end
